theory Spec2Isabelle
  imports Main "HOL-Library.Word" "HOL-Library.Sublist"
begin

section \<open>Data model\<close>

text \<open>
  The repository holds four drafts of one script that mirrors Mastodon posts to BlueSky:
  \<^verbatim>\<open>repost.js\<close> (no normalisation), the first script of \<^verbatim>\<open>part_001\<close>
  (temp files, sharp and ffmpeg), \<^verbatim>\<open>part_000\<close> (in-memory buffers, RichText) and the
  second script of \<^verbatim>\<open>part_001\<close> (temp files and RichText). Functions that exist in
  several drafts carry a suffix naming the draft: \<open>_repost\<close>, \<open>_files\<close>, \<open>_buffers\<close>
  and \<open>_rich\<close>.

  A Node \<open>Buffer\<close> is a list of bytes and \<open>buffer.length\<close> its length. A
  JavaScript string is a \<open>string\<close> whose characters stand for its UTF-16 code units,
  so that \<open>length\<close> is its \<open>.length\<close>; \<open>undefined\<close> or \<open>null\<close> where a string is
  expected is \<open>None\<close>. A thrown exception or a rejected promise is \<open>Inl\<close>. Console
  output is not modelled.
\<close>

type_synonym buffer = "8 word list"

datatype js_error = Error string

text \<open>
  A status as the source API returns it. The property \<open>post.content\<close> is
  \<open>props post ''content''\<close>, and a property the object lacks is \<open>None\<close>; \<open>post.id\<close>
  is \<open>post_id post\<close>. \<open>media_attachments\<close> is the empty list when the property is
  absent, which the guard \<^verbatim>\<open>post.media_attachments && post.media_attachments.length > 0\<close>
  treats as an empty array.
\<close>

record media_attachment =
  media_id :: string
  media_type :: string
  media_url :: string

record mastodon_post =
  post_id :: string
  props :: "string \<Rightarrow> string option"
  media_attachments :: "media_attachment list"

text \<open>
  A blob reference of the destination names the uploaded bytes and their declared
  encoding. The embeds are \<open>app.bsky.embed.images\<close>, \<open>app.bsky.embed.media\<close> with its
  video and alt text, and \<open>app.bsky.embed.external\<close> with uri, title, description and
  thumb. The record handed to \<open>agent.post\<close> is a \<open>bsky_post\<close>; the first two drafts pass
  no facets.
\<close>

record blob =
  blob_data :: buffer
  blob_mime :: string

record image_entry =
  entry_image :: blob
  entry_alt :: string

datatype embed =
    EmbedImages "image_entry list"
  | EmbedMediaVideo blob string
  | EmbedExternal string string string blob

type_synonym facet = "nat \<times> nat \<times> string"

record rich_text =
  rt_text :: string
  rt_facets :: "facet list"

record bsky_post =
  bp_text :: "string option"
  bp_facets :: "facet list option"
  bp_embed :: "embed option"

text \<open>
  The collaborators the scripts call, taken as parameters: the HTTP client
  (\<open>fetch_posts\<close>, \<open>fetch_media\<close>), Node's \<open>path\<close> module (\<open>temp_path f\<close> is
  \<open>path.join(TEMP_MEDIA_DIR, f)\<close>), sharp (\<open>sharp_metadata\<close> is
  \<open>sharp(b).metadata().format\<close>, \<open>sharp_jpeg q b\<close> is \<open>sharp(b).jpeg({quality:
  q}).toBuffer()\<close> and \<open>sharp(b).jpeg().toBuffer()\<close> for \<open>q = None\<close>), ffmpeg with the
  fixed output options of \<open>processVideo\<close>, JSDOM with the URL-stripping regular
  expression and \<open>trim\<close> (\<open>clean_text\<close>), \<open>RichText.detectFacets\<close>, the BlueSky agent
  (\<open>login_error\<close>, \<open>upload_error\<close>, \<open>post_error\<close>, where \<open>None\<close> is success) and the
  write of \<open>posted_ids.json\<close>. Within one environment a collaborator answers the same
  call in the same way; a collaborator that changes its behaviour between two runs is
  two environments.
\<close>

record env =
  fetch_posts :: "js_error + mastodon_post list"
  login_error :: "js_error option"
  fetch_media :: "string \<Rightarrow> js_error + buffer"
  temp_path :: "string \<Rightarrow> string"
  extname :: "string \<Rightarrow> string"
  sharp_metadata :: "buffer \<Rightarrow> js_error + string"
  sharp_jpeg :: "int option \<Rightarrow> buffer \<Rightarrow> js_error + buffer"
  ffmpeg_transcode :: "buffer \<Rightarrow> js_error + buffer"
  clean_text :: "string \<Rightarrow> js_error + string"
  detect_facets :: "string \<Rightarrow> js_error + facet list"
  upload_error :: "buffer \<Rightarrow> string \<Rightarrow> js_error option"
  post_error :: "bsky_post \<Rightarrow> js_error option"
  ledger_write_error :: "string list \<Rightarrow> js_error option"

definition BLUESKY_IMAGE_MAX_SIZE :: nat where
  "BLUESKY_IMAGE_MAX_SIZE = 1024 * 1024"

definition BLUESKY_VIDEO_MAX_SIZE :: nat where
  "BLUESKY_VIDEO_MAX_SIZE = 100 * 1024 * 1024"

definition BLUESKY_MAX_CHARS :: nat where
  "BLUESKY_MAX_CHARS = 300"

section \<open>Image normalisation\<close>

text \<open>
  The compression loop of \<open>processImageBuffer\<close> and \<open>processImage\<close>:
  \<^verbatim>\<open>while (size > BLUESKY_IMAGE_MAX_SIZE && quality > 10) {
    buffer = await sharp(buffer).jpeg({ quality }).toBuffer();
    size = buffer.length; quality -= 10; }\<close>
  \<open>size\<close> is always the length of the current buffer. The list \<open>tried\<close> records the
  qualities handed to sharp, in order; the source keeps no such list. An exception of
  sharp leaves the loop.
\<close>

function compress_loop ::
  "env \<Rightarrow> buffer \<Rightarrow> int \<Rightarrow> int list \<Rightarrow> int list \<times> (js_error + buffer)" where
  "compress_loop e buf quality tried =
     (if length buf > BLUESKY_IMAGE_MAX_SIZE \<and> quality > 10 then
        (case sharp_jpeg e (Some quality) buf of
           Inl err \<Rightarrow> (tried @ [quality], Inl err)
         | Inr b \<Rightarrow> compress_loop e b (quality - 10) (tried @ [quality]))
      else (tried, Inr buf))"
  by pat_completeness auto
termination
  by (relation "measure (\<lambda>(e, buf, quality, tried). nat (quality - 10))") auto

declare compress_loop.simps [simp del]

text \<open>The qualities from \<open>q\<close> downwards in steps of 10, as long as they exceed 10.\<close>

function ladder :: "int \<Rightarrow> int list" where
  "ladder q = (if q > 10 then q # ladder (q - 10) else [])"
  by pat_completeness auto
termination
  by (relation "measure (\<lambda>q. nat (q - 10))") auto

declare ladder.simps [simp del]

text \<open>
  \<open>processImageBuffer\<close> of \<^verbatim>\<open>part_000\<close>. \<open>Inr None\<close> is the returned \<open>null\<close>. The
  loop runs under the guard \<^verbatim>\<open>if (size > BLUESKY_IMAGE_MAX_SIZE) { let quality = 90; ... }\<close>.
\<close>

definition processImageBuffer :: "env \<Rightarrow> buffer \<Rightarrow> js_error + buffer option" where
  "processImageBuffer e buffer =
     (case sharp_metadata e buffer of
        Inl err \<Rightarrow> Inl err
      | Inr format \<Rightarrow>
          (case (if format \<noteq> ''jpeg'' \<and> format \<noteq> ''png''
                 then sharp_jpeg e None buffer else Inr buffer) of
             Inl err \<Rightarrow> Inl err
           | Inr processedBuffer \<Rightarrow>
               (case (if length processedBuffer > BLUESKY_IMAGE_MAX_SIZE
                      then snd (compress_loop e processedBuffer 90 [])
                      else Inr processedBuffer) of
                  Inl err \<Rightarrow> Inl err
                | Inr final \<Rightarrow>
                    if length final > BLUESKY_IMAGE_MAX_SIZE then Inr None
                    else Inr (Some final))))"

section \<open>Temporary files\<close>

text \<open>
  The temp directory is a map from paths to contents. \<open>fs.readFileSync\<close>,
  \<open>fs.statSync\<close> and \<open>fs.unlinkSync\<close> throw on a path that has no file;
  \<open>fs.writeFileSync\<close> and the download stream are taken to succeed.
\<close>

type_synonym files = "string \<Rightarrow> buffer option"

definition ENOENT :: js_error where
  "ENOENT = Error ''ENOENT: no such file or directory''"

definition ends_with :: "string \<Rightarrow> string \<Rightarrow> bool" where
  "ends_with s suf =
     (length suf \<le> length s \<and> drop (length s - length suf) s = suf)"

definition starts_with :: "string \<Rightarrow> string \<Rightarrow> bool" where
  "starts_with s pre = (take (length pre) s = pre)"

text \<open>
  \<^verbatim>\<open>p.replace(/\.[^/.]+$/, new)\<close>: the match is a dot followed, up to the end of the
  string, by one or more characters that are neither a dot nor a slash; without a match
  the string is unchanged.
\<close>

definition replace_extension :: "string \<Rightarrow> string \<Rightarrow> string" where
  "replace_extension p new =
     (let ext = takeWhile (\<lambda>c. c \<noteq> CHR ''.'' \<and> c \<noteq> CHR ''/'') (rev p) in
      case dropWhile (\<lambda>c. c \<noteq> CHR ''.'' \<and> c \<noteq> CHR ''/'') (rev p) of
        [] \<Rightarrow> p
      | c # stem \<Rightarrow> if c = CHR ''.'' \<and> ext \<noteq> [] then rev stem @ new else p)"

text \<open>\<open>downloadMedia\<close>: a failed fetch throws; otherwise the body is written to
  \<open>path.join(TEMP_MEDIA_DIR, filename)\<close> and that path returned.\<close>

definition downloadMedia ::
  "env \<Rightarrow> files \<Rightarrow> string \<Rightarrow> string \<Rightarrow> files \<times> (js_error + string)" where
  "downloadMedia e fs url filename =
     (case fetch_media e url of
        Inl err \<Rightarrow> (fs, Inl err)
      | Inr body \<Rightarrow> (fs(temp_path e filename \<mapsto> body), Inr (temp_path e filename)))"

text \<open>\<open>processImage\<close> of \<^verbatim>\<open>part_001\<close> (the same text in both scripts).\<close>

definition processImage ::
  "env \<Rightarrow> files \<Rightarrow> string \<Rightarrow> files \<times> (js_error + string option)" where
  "processImage e fs inputPath =
     (case fs inputPath of
        None \<Rightarrow> (fs, Inl ENOENT)
      | Some buffer \<Rightarrow>
          (case sharp_metadata e buffer of
             Inl err \<Rightarrow> (fs, Inl err)
           | Inr format \<Rightarrow>
               (case (if format \<noteq> ''jpeg'' \<and> format \<noteq> ''png'' then
                        (case sharp_jpeg e None buffer of
                           Inl err \<Rightarrow> Inl err
                         | Inr b \<Rightarrow>
                             Inr (replace_extension inputPath ''.jpg'', b,
                                  fs(replace_extension inputPath ''.jpg'' \<mapsto> b)))
                      else Inr (inputPath, buffer, fs)) of
                  Inl err \<Rightarrow> (fs, Inl err)
                | Inr (outputPath, buffer1, fs1) \<Rightarrow>
                    (case (if length buffer1 > BLUESKY_IMAGE_MAX_SIZE then
                             (case snd (compress_loop e buffer1 90 []) of
                                Inl err \<Rightarrow> Inl err
                              | Inr b \<Rightarrow> Inr (fs1(outputPath \<mapsto> b)))
                           else Inr fs1) of
                       Inl err \<Rightarrow> (fs1, Inl err)
                     | Inr fs2 \<Rightarrow>
                         (case fs2 outputPath of
                            None \<Rightarrow> (fs2, Inl ENOENT)
                          | Some written \<Rightarrow>
                              if length written > BLUESKY_IMAGE_MAX_SIZE
                              then (fs2, Inr None)
                              else (fs2, Inr (Some outputPath)))))))"

section \<open>Video normalisation\<close>

text \<open>
  \<open>processVideo\<close> of \<^verbatim>\<open>part_001\<close>. ffmpeg reads the input file and, on its
  \<open>end\<close> event, has written the transcoded bytes to \<open>outputPath\<close>; on its \<open>error\<close>
  event (also when the input is missing) the promise resolves \<open>null\<close>. The promise
  never rejects.
\<close>

definition processVideo :: "env \<Rightarrow> files \<Rightarrow> string \<Rightarrow> files \<times> string option" where
  "processVideo e fs inputPath =
     (let outputPath = replace_extension inputPath ''_bsky.mp4'' in
      case fs inputPath of
        None \<Rightarrow> (fs, None)
      | Some input \<Rightarrow>
          (case ffmpeg_transcode e input of
             Inl err \<Rightarrow> (fs, None)
           | Inr out \<Rightarrow>
               if length out > BLUESKY_VIDEO_MAX_SIZE
               then (fs(outputPath := None), None)
               else (fs(outputPath \<mapsto> out), Some outputPath)))"

section \<open>Publishing\<close>

text \<open>\<open>agent.uploadBlob(data, { encoding })\<close> and \<open>agent.post(record)\<close>; a post the
  destination accepts is returned, to be appended to the feed by the caller.\<close>

definition uploadBlob :: "env \<Rightarrow> buffer \<Rightarrow> string \<Rightarrow> js_error + blob" where
  "uploadBlob e data encoding =
     (case upload_error e data encoding of
        Some err \<Rightarrow> Inl err
      | None \<Rightarrow> Inr \<lparr>blob_data = data, blob_mime = encoding\<rparr>)"

definition agent_post :: "env \<Rightarrow> bsky_post \<Rightarrow> js_error + bsky_post" where
  "agent_post e p = (case post_error e p of Some err \<Rightarrow> Inl err | None \<Rightarrow> Inr p)"

definition image_of :: "blob \<Rightarrow> image_entry" where
  "image_of b = \<lparr>entry_image = b, entry_alt = ''Media reposted from Mastodon''\<rparr>"

text \<open>\<open>postToBlueSky\<close> of \<^verbatim>\<open>repost.js\<close>: every file becomes an entry of an images
  embed, whatever its encoding.\<close>

definition mime_of_repost :: "string \<Rightarrow> string" where
  "mime_of_repost file =
     (if ends_with file ''.mp4'' then ''video/mp4''
      else if ends_with file ''.png'' then ''image/png'' else ''image/jpeg'')"

fun upload_repost ::
  "env \<Rightarrow> files \<Rightarrow> string list \<Rightarrow> image_entry list \<Rightarrow> js_error + image_entry list" where
  "upload_repost e fs [] uploaded = Inr uploaded"
| "upload_repost e fs (file # rest) uploaded =
     (case fs file of
        None \<Rightarrow> Inl ENOENT
      | Some data \<Rightarrow>
          (case uploadBlob e data (mime_of_repost file) of
             Inl err \<Rightarrow> Inl err
           | Inr b \<Rightarrow> upload_repost e fs rest (uploaded @ [image_of b])))"

definition postToBlueSky_repost ::
  "env \<Rightarrow> files \<Rightarrow> string option \<Rightarrow> string list \<Rightarrow> js_error + bsky_post" where
  "postToBlueSky_repost e fs text mediaFiles =
     (case (if length mediaFiles > 0 then
              (case upload_repost e fs mediaFiles [] of
                 Inl err \<Rightarrow> Inl err
               | Inr uploaded \<Rightarrow> Inr (Some (EmbedImages uploaded)))
            else Inr None) of
        Inl err \<Rightarrow> Inl err
      | Inr emb \<Rightarrow> agent_post e \<lparr>bp_text = text, bp_facets = None, bp_embed = emb\<rparr>)"

text \<open>\<open>postToBlueSky\<close> of the first script of \<^verbatim>\<open>part_001\<close>: a video sets a placeholder
  external embed, and an images embed replaces it when any image was uploaded.\<close>

fun upload_files ::
  "env \<Rightarrow> files \<Rightarrow> string list \<Rightarrow> image_entry list \<times> embed option \<Rightarrow>
   js_error + image_entry list \<times> embed option" where
  "upload_files e fs [] acc = Inr acc"
| "upload_files e fs (file # rest) (uploaded, emb) =
     (case fs file of
        None \<Rightarrow> Inl ENOENT
      | Some data \<Rightarrow>
          (case uploadBlob e data (mime_of_repost file) of
             Inl err \<Rightarrow> Inl err
           | Inr b \<Rightarrow>
               if starts_with (mime_of_repost file) ''image/''
               then upload_files e fs rest (uploaded @ [image_of b], emb)
               else if mime_of_repost file = ''video/mp4''
               then upload_files e fs rest
                      (uploaded, Some (EmbedExternal [] ''Video reposted from Mastodon'' [] b))
               else upload_files e fs rest (uploaded, emb)))"

definition postToBlueSky_files ::
  "env \<Rightarrow> files \<Rightarrow> string option \<Rightarrow> string list \<Rightarrow> js_error + bsky_post" where
  "postToBlueSky_files e fs text mediaFiles =
     (case (if length mediaFiles > 0 then
              (case upload_files e fs mediaFiles ([], None) of
                 Inl err \<Rightarrow> Inl err
               | Inr (uploaded, emb) \<Rightarrow>
                   if length uploaded > 0 then Inr (Some (EmbedImages uploaded))
                   else Inr emb)
            else Inr None) of
        Inl err \<Rightarrow> Inl err
      | Inr emb \<Rightarrow> agent_post e \<lparr>bp_text = text, bp_facets = None, bp_embed = emb\<rparr>)"

text \<open>\<open>postToBlueSky\<close> of \<^verbatim>\<open>part_000\<close>: one video, else the images, each declared
  \<open>image/jpeg\<close>.\<close>

fun upload_buffers ::
  "env \<Rightarrow> buffer list \<Rightarrow> image_entry list \<Rightarrow> js_error + image_entry list" where
  "upload_buffers e [] uploaded = Inr uploaded"
| "upload_buffers e (buffer # rest) uploaded =
     (case uploadBlob e buffer ''image/jpeg'' of
        Inl err \<Rightarrow> Inl err
      | Inr b \<Rightarrow> upload_buffers e rest (uploaded @ [image_of b]))"

definition postToBlueSky_buffers ::
  "env \<Rightarrow> rich_text \<Rightarrow> buffer list \<Rightarrow> buffer option \<Rightarrow> js_error + bsky_post" where
  "postToBlueSky_buffers e richText imageBuffers videoBuffer =
     (case (case videoBuffer of
              Some video \<Rightarrow>
                (case uploadBlob e video ''video/mp4'' of
                   Inl err \<Rightarrow> Inl err
                 | Inr b \<Rightarrow> Inr (Some (EmbedMediaVideo b ''Video reposted from Mastodon'')))
            | None \<Rightarrow>
                if length imageBuffers > 0 then
                  (case upload_buffers e imageBuffers [] of
                     Inl err \<Rightarrow> Inl err
                   | Inr uploaded \<Rightarrow> Inr (Some (EmbedImages uploaded)))
                else Inr None) of
        Inl err \<Rightarrow> Inl err
      | Inr emb \<Rightarrow>
          agent_post e \<lparr>bp_text = Some (rt_text richText),
                        bp_facets = Some (rt_facets richText), bp_embed = emb\<rparr>)"

text \<open>\<open>postToBlueSky\<close> of the second script of \<^verbatim>\<open>part_001\<close>: the first \<open>.mp4\<close> file,
  else every other file as an image.\<close>

fun upload_rich ::
  "env \<Rightarrow> files \<Rightarrow> string list \<Rightarrow> image_entry list \<Rightarrow> js_error + image_entry list" where
  "upload_rich e fs [] uploaded = Inr uploaded"
| "upload_rich e fs (file # rest) uploaded =
     (case fs file of
        None \<Rightarrow> Inl ENOENT
      | Some data \<Rightarrow>
          (case uploadBlob e data
                  (if ends_with file ''.png'' then ''image/png'' else ''image/jpeg'') of
             Inl err \<Rightarrow> Inl err
           | Inr b \<Rightarrow> upload_rich e fs rest (uploaded @ [image_of b])))"

definition postToBlueSky_rich ::
  "env \<Rightarrow> files \<Rightarrow> rich_text \<Rightarrow> string list \<Rightarrow> js_error + bsky_post" where
  "postToBlueSky_rich e fs richText mediaFiles =
     (let imageFiles = filter (\<lambda>f. \<not> ends_with f ''.mp4'') mediaFiles;
          videoFiles = filter (\<lambda>f. ends_with f ''.mp4'') mediaFiles
      in case (case videoFiles of
                 videoPath # others \<Rightarrow>
                   (case fs videoPath of
                      None \<Rightarrow> Inl ENOENT
                    | Some videoData \<Rightarrow>
                        (case uploadBlob e videoData ''video/mp4'' of
                           Inl err \<Rightarrow> Inl err
                         | Inr b \<Rightarrow>
                             Inr (Some (EmbedMediaVideo b ''Video reposted from Mastodon''))))
               | [] \<Rightarrow>
                   if length imageFiles > 0 then
                     (case upload_rich e fs imageFiles [] of
                        Inl err \<Rightarrow> Inl err
                      | Inr uploaded \<Rightarrow> Inr (Some (EmbedImages uploaded)))
                   else Inr None) of
           Inl err \<Rightarrow> Inl err
         | Inr emb \<Rightarrow>
             agent_post e \<lparr>bp_text = Some (rt_text richText),
                           bp_facets = Some (rt_facets richText), bp_embed = emb\<rparr>)"

section \<open>The ledger and the state of a run\<close>

text \<open>
  \<open>postedIds\<close> is the array in memory, \<open>ledger_file\<close> the array stored in
  \<^verbatim>\<open>posted_ids.json\<close> (a missing or unreadable file reads as the empty array), \<open>feed\<close>
  the posts the destination accepted, oldest first, and \<open>temp_files\<close> the temp
  directory.
\<close>

record world =
  postedIds :: "string list"
  ledger_file :: "string list"
  feed :: "bsky_post list"
  temp_files :: files

text \<open>The start of a process: \<open>postedIds\<close> is read from the file.\<close>

definition start :: "string list \<Rightarrow> bsky_post list \<Rightarrow> files \<Rightarrow> world" where
  "start ledger published fs =
     \<lparr>postedIds = ledger, ledger_file = ledger, feed = published, temp_files = fs\<rparr>"

definition savePostedIds :: "env \<Rightarrow> world \<Rightarrow> js_error + world" where
  "savePostedIds e w =
     (case ledger_write_error e (postedIds w) of
        Some err \<Rightarrow> Inl err
      | None \<Rightarrow> Inr (w\<lparr>ledger_file := postedIds w\<rparr>))"

text \<open>JavaScript's \<open>a || b\<close> on values that are strings or absent: the empty string and
  \<open>undefined\<close> are falsy.\<close>

definition truthy :: "string option \<Rightarrow> bool" where
  "truthy v = (case v of None \<Rightarrow> False | Some s \<Rightarrow> s \<noteq> [])"

definition js_or :: "string option \<Rightarrow> string option \<Rightarrow> string option" where
  "js_or a b = (if truthy a then a else b)"

text \<open>\<open>a || ''\<close>, a string.\<close>

definition or_empty :: "string option \<Rightarrow> string" where
  "or_empty a = (case a of None \<Rightarrow> [] | Some s \<Rightarrow> s)"

text \<open>\<open>post.content || post.spoiler_text || post.text\<close>.\<close>

definition post_body :: "mastodon_post \<Rightarrow> string option" where
  "post_body post =
     js_or (js_or (props post ''content'') (props post ''spoiler_text'')) (props post ''text'')"

section \<open>The run of \<^verbatim>\<open>repost.js\<close>\<close>

text \<open>The constant \<open>text\<close> of line 120, which the rest of the loop body never reads.\<close>

definition line120_text :: "mastodon_post \<Rightarrow> string" where
  "line120_text post =
     or_empty (foldr js_or
       (map (props post)
          [''content'', ''spoiler_text'', ''text'', ''status'', ''summary'', ''caption'',
           ''content'', ''plain'', ''body'', ''note'', ''description'', ''title'',
           ''display_name'', ''name'', ''username'', ''handle''])
       (Some (post_id post)))"

definition media_filename :: "env \<Rightarrow> mastodon_post \<Rightarrow> media_attachment \<Rightarrow> string" where
  "media_filename e post media =
     post_id post @ ''_'' @ media_id media @
       (if media_type media = ''video'' then ''.mp4''
        else if extname e (media_url media) \<noteq> [] then extname e (media_url media)
        else ''.jpg'')"

text \<open>One attachment of the download loop; a failed download is caught and logged.\<close>

definition download_step ::
  "env \<Rightarrow> mastodon_post \<Rightarrow> files \<times> string list \<Rightarrow> media_attachment \<Rightarrow> files \<times> string list" where
  "download_step e post acc media =
     (case downloadMedia e (fst acc) (media_url media) (media_filename e post media) of
        (fs, Inl err) \<Rightarrow> (fs, snd acc)
      | (fs, Inr filePath) \<Rightarrow> (fs, snd acc @ [filePath]))"

text \<open>\<^verbatim>\<open>for (const file of mediaFiles) fs.unlinkSync(file)\<close>; the exception of a missing
  file ends the loop and is caught by the handler of the post.\<close>

fun unlink_all :: "files \<Rightarrow> string list \<Rightarrow> files" where
  "unlink_all fs [] = fs"
| "unlink_all fs (file # rest) =
     (case fs file of None \<Rightarrow> fs | Some d \<Rightarrow> unlink_all (fs(file := None)) rest)"

definition process_post_repost :: "env \<Rightarrow> world \<Rightarrow> mastodon_post \<Rightarrow> world" where
  "process_post_repost e w post =
     (let text = line120_text post;
          downloaded = foldl (download_step e post) (temp_files w, []) (media_attachments post);
          mediaFiles = snd downloaded;
          w1 = w\<lparr>temp_files := fst downloaded\<rparr>
      in case postToBlueSky_repost e (temp_files w1) (post_body post) mediaFiles of
           Inl err \<Rightarrow> w1
         | Inr published \<Rightarrow>
             (let w2 = w1\<lparr>feed := feed w1 @ [published],
                          postedIds := postedIds w1 @ [post_id post]\<rparr>
              in case savePostedIds e w2 of
                   Inl err \<Rightarrow> w2
                 | Inr w3 \<Rightarrow> w3\<lparr>temp_files := unlink_all (temp_files w3) mediaFiles\<rparr>))"

text \<open>The main function: \<open>Inl\<close> is the fatal error that ends the process with status
  1. The posts are filtered once, before the loop.\<close>

definition main_repost :: "env \<Rightarrow> world \<Rightarrow> js_error + world" where
  "main_repost e w =
     (case fetch_posts e of
        Inl err \<Rightarrow> Inl err
      | Inr posts \<Rightarrow>
          (let newPosts = filter (\<lambda>post. post_id post \<notin> set (postedIds w)) posts in
           if length newPosts = 0 then Inr w
           else (case login_error e of
                   Some err \<Rightarrow> Inl err
                 | None \<Rightarrow> Inr (foldl (process_post_repost e) w (rev newPosts)))))"

section \<open>The run of \<^verbatim>\<open>part_000\<close>\<close>

definition mastodonToRichText :: "env \<Rightarrow> string \<Rightarrow> js_error + rich_text option" where
  "mastodonToRichText e html =
     (if html = [] then Inr None
      else (case clean_text e html of
              Inl err \<Rightarrow> Inl err
            | Inr text \<Rightarrow>
                (case detect_facets e text of
                   Inl err \<Rightarrow> Inl err
                 | Inr fs \<Rightarrow> Inr (Some \<lparr>rt_text = text, rt_facets = fs\<rparr>))))"

record media_acc =
  imageBuffers :: "buffer list"
  videoBuffer :: "buffer option"
  skipDueToVideo :: bool

text \<open>One attachment of the media loop; an exception of the download or of sharp is
  caught and logged.\<close>

definition media_step_buffers :: "env \<Rightarrow> media_acc \<Rightarrow> media_attachment \<Rightarrow> media_acc" where
  "media_step_buffers e acc media =
     (if media_type media = ''image'' then
        (case fetch_media e (media_url media) of
           Inl err \<Rightarrow> acc
         | Inr buffer \<Rightarrow>
             (case processImageBuffer e buffer of
                Inl err \<Rightarrow> acc
              | Inr None \<Rightarrow> acc
              | Inr (Some processedBuffer) \<Rightarrow>
                  acc\<lparr>imageBuffers := imageBuffers acc @ [processedBuffer]\<rparr>))
      else if media_type media = ''video'' then
        (case fetch_media e (media_url media) of
           Inl err \<Rightarrow> acc
         | Inr buffer \<Rightarrow>
             if length buffer > BLUESKY_VIDEO_MAX_SIZE
             then acc\<lparr>skipDueToVideo := True\<rparr>
             else acc\<lparr>videoBuffer := Some buffer\<rparr>)
      else acc)"

definition collect_media :: "env \<Rightarrow> mastodon_post \<Rightarrow> media_acc" where
  "collect_media e post =
     foldl (media_step_buffers e)
       \<lparr>imageBuffers = [], videoBuffer = None, skipDueToVideo = False\<rparr>
       (media_attachments post)"

text \<open>\<^verbatim>\<open>postedIds.push(post.id); savePostedIds();\<close> inside the \<open>try\<close> of the post: when
  the write throws, the identifier stays in memory only.\<close>

definition mark_posted :: "env \<Rightarrow> world \<Rightarrow> string \<Rightarrow> world" where
  "mark_posted e w ident =
     (case savePostedIds e (w\<lparr>postedIds := postedIds w @ [ident]\<rparr>) of
        Inl err \<Rightarrow> w\<lparr>postedIds := postedIds w @ [ident]\<rparr>
      | Inr w' \<Rightarrow> w')"

definition process_post_buffers :: "env \<Rightarrow> world \<Rightarrow> mastodon_post \<Rightarrow> world" where
  "process_post_buffers e w post =
     (case mastodonToRichText e (or_empty (post_body post)) of
        Inl err \<Rightarrow> w
      | Inr None \<Rightarrow> w
      | Inr (Some richText) \<Rightarrow>
          if rt_text richText = [] then w
          else if length (rt_text richText) > BLUESKY_MAX_CHARS then w
          else if skipDueToVideo (collect_media e post) then mark_posted e w (post_id post)
          else (case postToBlueSky_buffers e richText
                       (imageBuffers (collect_media e post))
                       (videoBuffer (collect_media e post)) of
                  Inl err \<Rightarrow> w
                | Inr published \<Rightarrow>
                    mark_posted e (w\<lparr>feed := feed w @ [published]\<rparr>) (post_id post)))"

definition main_buffers :: "env \<Rightarrow> world \<Rightarrow> js_error + world" where
  "main_buffers e w =
     (case fetch_posts e of
        Inl err \<Rightarrow> Inl err
      | Inr posts \<Rightarrow>
          (let newPosts = rev (filter (\<lambda>post. post_id post \<notin> set (postedIds w)) posts) in
           if length newPosts = 0 then Inr w
           else (case login_error e of
                   Some err \<Rightarrow> Inl err
                 | None \<Rightarrow> Inr (foldl (process_post_buffers e) w newPosts))))"


section \<open>The run of the second script of \<^verbatim>\<open>part_001\<close>\<close>

text \<open>
  One attachment of the media loop. \<open>if (processedPath)\<close> is false for \<open>null\<close> and for
  the empty string. The path is pushed before \<open>fs.unlinkSync(filePath)\<close>, whose
  exception on a missing file is caught with the attachment, so the removal is the map
  update in both cases.
\<close>

definition media_step_rich ::
  "env \<Rightarrow> mastodon_post \<Rightarrow> files \<times> string list \<Rightarrow> media_attachment \<Rightarrow> files \<times> string list" where
  "media_step_rich e post acc media =
     (case downloadMedia e (fst acc) (media_url media) (media_filename e post media) of
        (fs, Inl err) \<Rightarrow> (fs, snd acc)
      | (fs, Inr filePath) \<Rightarrow>
          (case (if media_type media = ''image'' then processImage e fs filePath
                 else if media_type media = ''video''
                 then (fst (processVideo e fs filePath), Inr (snd (processVideo e fs filePath)))
                 else (fs, Inr None)) of
             (fs1, Inl err) \<Rightarrow> (fs1, snd acc)
           | (fs1, Inr None) \<Rightarrow> (fs1, snd acc)
           | (fs1, Inr (Some processedPath)) \<Rightarrow>
               if processedPath = [] then (fs1, snd acc)
               else if processedPath \<noteq> filePath
               then (fs1(filePath := None), snd acc @ [processedPath])
               else (fs1, snd acc @ [processedPath])))"

definition process_post_rich :: "env \<Rightarrow> world \<Rightarrow> mastodon_post \<Rightarrow> world" where
  "process_post_rich e w post =
     (case mastodonToRichText e (or_empty (post_body post)) of
        Inl err \<Rightarrow> w
      | Inr None \<Rightarrow> w
      | Inr (Some richText) \<Rightarrow>
          if rt_text richText = [] then w
          else if length (rt_text richText) > BLUESKY_MAX_CHARS then w
          else
            (let processed =
                   foldl (media_step_rich e post) (temp_files w, []) (media_attachments post);
                 mediaFiles = snd processed;
                 w1 = w\<lparr>temp_files := fst processed\<rparr>
             in case postToBlueSky_rich e (temp_files w1) richText mediaFiles of
                  Inl err \<Rightarrow> w1
                | Inr published \<Rightarrow>
                    (let w2 = w1\<lparr>feed := feed w1 @ [published],
                                 postedIds := postedIds w1 @ [post_id post]\<rparr>
                     in case savePostedIds e w2 of
                          Inl err \<Rightarrow> w2
                        | Inr w3 \<Rightarrow>
                            w3\<lparr>temp_files := unlink_all (temp_files w3) mediaFiles\<rparr>)))"

definition main_rich :: "env \<Rightarrow> world \<Rightarrow> js_error + world" where
  "main_rich e w =
     (case fetch_posts e of
        Inl err \<Rightarrow> Inl err
      | Inr posts \<Rightarrow>
          (let newPosts = rev (filter (\<lambda>post. post_id post \<notin> set (postedIds w)) posts) in
           if length newPosts = 0 then Inr w
           else (case login_error e of
                   Some err \<Rightarrow> Inl err
                 | None \<Rightarrow> Inr (foldl (process_post_rich e) w newPosts))))"


section \<open>A reference environment\<close>

text \<open>
  Concrete collaborators on which the theorems are run: an image is told by its first
  byte (\<open>0xFF\<close> JPEG, \<open>0x89\<close> PNG, anything else WebP, no byte at all an error); the
  JPEG encoder halves the size at every call; a download yields the bytes named by the
  URL (\<open>''huge-video''\<close> is 200 MB, \<open>''big-png''\<close> a 5 MB PNG, \<open>''missing''\<close> fails);
  every upload, post and ledger write succeeds.
\<close>

definition ref_metadata :: "buffer \<Rightarrow> js_error + string" where
  "ref_metadata b =
     (if b = [] then Inl (Error ''Input buffer contains unsupported image format'')
      else Inr (if hd b = 255 then ''jpeg'' else if hd b = 137 then ''png'' else ''webp''))"

definition ref_jpeg :: "int option \<Rightarrow> buffer \<Rightarrow> js_error + buffer" where
  "ref_jpeg q b = Inr (255 # replicate (length b div 2) 0)"

definition ref_fetch_media :: "string \<Rightarrow> js_error + buffer" where
  "ref_fetch_media url =
     (if url = ''missing'' then Inl (Error ''Failed to download media'')
      else if url = ''huge-video'' then Inr (replicate 200000000 0)
      else if url = ''big-png'' then Inr (replicate 5000000 137)
      else if url = ''webp'' then Inr [82, 73, 70, 70]
      else if url = ''png'' then Inr [137, 80, 78, 71]
      else if url = ''video'' then Inr [0, 0, 0, 24]
      else Inr [255, 216, 255])"

definition ref_extname :: "string \<Rightarrow> string" where
  "ref_extname url =
     (let ext = takeWhile (\<lambda>c. c \<noteq> CHR ''.'' \<and> c \<noteq> CHR ''/'') (rev url) in
      case dropWhile (\<lambda>c. c \<noteq> CHR ''.'' \<and> c \<noteq> CHR ''/'') (rev url) of
        [] \<Rightarrow> []
      | c # stem \<Rightarrow> if c = CHR ''.'' then CHR ''.'' # rev ext else [])"

definition ref_env :: env where
  "ref_env =
     \<lparr>fetch_posts = Inr [],
      login_error = None,
      fetch_media = ref_fetch_media,
      temp_path = (\<lambda>filename. ''/tmp/mastodon_media/'' @ filename),
      extname = ref_extname,
      sharp_metadata = ref_metadata,
      sharp_jpeg = ref_jpeg,
      ffmpeg_transcode = (\<lambda>input. Inr (take 3 input)),
      clean_text = (\<lambda>html. Inr html),
      detect_facets = (\<lambda>text. Inr []),
      upload_error = (\<lambda>data encoding. None),
      post_error = (\<lambda>p. None),
      ledger_write_error = (\<lambda>ids. None)\<rparr>"


text \<open>A post whose only text property is \<open>content\<close>, with attachments given as
  (id, type, URL).\<close>

definition ref_post :: "string \<Rightarrow> string \<Rightarrow> (string \<times> string \<times> string) list \<Rightarrow> mastodon_post" where
  "ref_post ident body atts =
     \<lparr>post_id = ident,
      props = (\<lambda>k. if k = ''content'' then Some body else None),
      media_attachments =
        map (\<lambda>a. \<lparr>media_id = fst a, media_type = fst (snd a), media_url = snd (snd a)\<rparr>) atts\<rparr>"


section \<open>Observers of an embed\<close>

text \<open>The image entries and the videos that an embed carries.\<close>

definition embed_images :: "embed option \<Rightarrow> image_entry list" where
  "embed_images emb = (case emb of Some (EmbedImages imgs) \<Rightarrow> imgs | _ \<Rightarrow> [])"

definition embed_videos :: "embed option \<Rightarrow> blob list" where
  "embed_videos emb = (case emb of Some (EmbedMediaVideo b alt) \<Rightarrow> [b] | _ \<Rightarrow> [])"


text \<open>The embed of the post that a call of \<open>postToBlueSky\<close> published; \<open>None\<close> also
  when the call threw.\<close>

definition published_embed :: "js_error + bsky_post \<Rightarrow> embed option" where
  "published_embed r = (case r of Inl err \<Rightarrow> None | Inr p \<Rightarrow> bp_embed p)"

text \<open>Reference inputs: a temp directory with one JPEG and one MP4 file, a rich text,
  and six small JPEG buffers.\<close>

definition ref_files :: files where
  "ref_files =
     [''/tmp/mastodon_media/1_1.jpg'' \<mapsto> [255, 216, 255],
      ''/tmp/mastodon_media/1_2.mp4'' \<mapsto> [0, 0, 0, 24]]"

definition ref_rich :: rich_text where
  "ref_rich = \<lparr>rt_text = ''hi'', rt_facets = []\<rparr>"

definition ref_six :: "buffer list" where
  "ref_six = [[255, 216, 1], [255, 216, 2], [255, 216, 3],
              [255, 216, 4], [255, 216, 5], [255, 216, 6]]"


section \<open>Observers of a run\<close>

text \<open>What the loop body publishes for one post, and which identifiers it appends to
  \<open>postedIds\<close>, read off a run of the body from the empty state.\<close>

definition published_by_buffers :: "env \<Rightarrow> mastodon_post \<Rightarrow> bsky_post list" where
  "published_by_buffers e post = feed (process_post_buffers e (start [] [] Map.empty) post)"

definition marked_by_buffers :: "env \<Rightarrow> mastodon_post \<Rightarrow> string list" where
  "marked_by_buffers e post = postedIds (process_post_buffers e (start [] [] Map.empty) post)"

definition published_by_repost :: "env \<Rightarrow> mastodon_post \<Rightarrow> bsky_post list" where
  "published_by_repost e post = feed (process_post_repost e (start [] [] Map.empty) post)"

definition marked_by_repost :: "env \<Rightarrow> mastodon_post \<Rightarrow> string list" where
  "marked_by_repost e post = postedIds (process_post_repost e (start [] [] Map.empty) post)"

text \<open>The posts of a fetched list that the ledger does not hold, oldest first.\<close>

definition candidates :: "string list \<Rightarrow> mastodon_post list \<Rightarrow> mastodon_post list" where
  "candidates ledger posts = rev (filter (\<lambda>post. post_id post \<notin> set ledger) posts)"


text \<open>Three posts without media as the source API delivers them, most recent first,
  and the reference environment fetching them.\<close>

definition ref_timeline :: "mastodon_post list" where
  "ref_timeline = [ref_post ''3'' ''T3'' [], ref_post ''2'' ''T2'' [], ref_post ''1'' ''T1'' []]"

definition ref_env_timeline :: env where
  "ref_env_timeline = ref_env\<lparr>fetch_posts := Inr ref_timeline\<rparr>"


text \<open>The same environment with a destination that rejects every post.\<close>

definition ref_env_rejecting :: env where
  "ref_env_rejecting = ref_env_timeline\<lparr>post_error := (\<lambda>p. Some (Error ''rejected''))\<rparr>"


text \<open>A post of 301 characters and a post without text, both without media.\<close>

definition ref_long_post :: mastodon_post where
  "ref_long_post = ref_post ''9'' (replicate 301 CHR ''a'') []"

definition ref_empty_post :: mastodon_post where
  "ref_empty_post = ref_post ''8'' [] []"


text \<open>A post without any text property, with one image attachment of 5 MB.\<close>

definition ref_bare_post :: mastodon_post where
  "ref_bare_post =
     \<lparr>post_id = ''7'', props = (\<lambda>k. None),
      media_attachments =
        [\<lparr>media_id = ''1'', media_type = ''image'', media_url = ''big-png''\<rparr>]\<rparr>"




text \<open>The same environment with a destination that rejects the post with text
  \<open>T2\<close> and accepts every other post.\<close>

definition ref_env_flaky :: env where
  "ref_env_flaky =
     ref_env_timeline\<lparr>post_error :=
       (\<lambda>p. if bp_text p = Some ''T2'' then Some (Error ''rejected'') else None)\<rparr>"

text \<open>The reference environment fetching the post of 301 characters between two
  short posts.\<close>

definition ref_env_mixed :: env where
  "ref_env_mixed =
     ref_env\<lparr>fetch_posts := Inr [ref_post ''3'' ''T3'' [], ref_long_post, ref_post ''1'' ''T1'' []]\<rparr>"


section \<open>Properties of the compression loop\<close>

lemma ref_env_fields:
  "fetch_posts ref_env = Inr []"
  "login_error ref_env = None"
  "fetch_media ref_env = ref_fetch_media"
  "temp_path ref_env = (\<lambda>filename. ''/tmp/mastodon_media/'' @ filename)"
  "extname ref_env = ref_extname"
  "sharp_metadata ref_env = ref_metadata"
  "sharp_jpeg ref_env = ref_jpeg"
  "ffmpeg_transcode ref_env = (\<lambda>input. Inr (take 3 input))"
  "clean_text ref_env = (\<lambda>html. Inr html)"
  "detect_facets ref_env = (\<lambda>text. Inr [])"
  "upload_error ref_env = (\<lambda>data encoding. None)"
  "post_error ref_env = (\<lambda>p. None)"
  "ledger_write_error ref_env = (\<lambda>ids. None)"
  by (simp_all add: ref_env_def)

lemma ladder_90: "ladder 90 = [90, 80, 70, 60, 50, 40, 30, 20]"
  by (simp add: ladder.simps)

lemma compress_loop_trace:
  "\<exists>n. fst (compress_loop e buf q tried) = tried @ take n (ladder q)"
proof (induction e buf q tried rule: compress_loop.induct)
  case (1 e buf quality tried)
  show ?case
  proof (cases "length buf > BLUESKY_IMAGE_MAX_SIZE \<and> quality > 10")
    case False
    then have "fst (compress_loop e buf quality tried) = tried @ take 0 (ladder quality)"
      by (auto simp add: compress_loop.simps [of e buf quality])
    then show ?thesis by blast
  next
    case True
    note guard = True
    show ?thesis
    proof (cases "sharp_jpeg e (Some quality) buf")
      case (Inl err)
      with guard have "fst (compress_loop e buf quality tried)
          = tried @ take 1 (ladder quality)"
        by (simp add: compress_loop.simps [of e buf quality] ladder.simps [of quality])
      then show ?thesis by blast
    next
      case (Inr b)
      from "1.IH" [OF guard Inr] obtain n where
        n: "fst (compress_loop e b (quality - 10) (tried @ [quality]))
            = (tried @ [quality]) @ take n (ladder (quality - 10))"
        by blast
      from guard Inr n have "fst (compress_loop e buf quality tried)
          = tried @ take (Suc n) (ladder quality)"
        by (simp add: compress_loop.simps [of e buf quality] ladder.simps [of quality])
      then show ?thesis by blast
    qed
  qed
qed

lemma ladder_nil: "q \<le> 10 \<Longrightarrow> ladder q = []"
  by (simp add: ladder.simps)

lemma compress_loop_stop:
  "length b \<le> BLUESKY_IMAGE_MAX_SIZE \<or> q \<le> 10 \<Longrightarrow> compress_loop e b q tr = (tr, Inr b)"
  by (auto simp add: compress_loop.simps [of e b q])

lemma compress_loop_exit:
  "snd (compress_loop e buf q tried) = Inr b \<Longrightarrow>
   length b \<le> BLUESKY_IMAGE_MAX_SIZE \<or> fst (compress_loop e buf q tried) = tried @ ladder q"
proof (induction e buf q tried rule: compress_loop.induct)
  case (1 e buf quality tried)
  show ?case
  proof (cases "length buf > BLUESKY_IMAGE_MAX_SIZE \<and> quality > 10")
    case False
    then have eq: "compress_loop e buf quality tried = (tried, Inr buf)"
      by (intro compress_loop_stop) auto
    show ?thesis
    proof (cases "quality \<le> 10")
      case True
      then show ?thesis by (simp add: eq ladder_nil)
    next
      case False
      with \<open>\<not> (length buf > BLUESKY_IMAGE_MAX_SIZE \<and> quality > 10)\<close> "1.prems" eq
      show ?thesis by simp
    qed
  next
    case True
    note guard = True
    show ?thesis
    proof (cases "sharp_jpeg e (Some quality) buf")
      case (Inl err)
      with guard "1.prems" show ?thesis
        by (simp add: compress_loop.simps [of e buf quality])
    next
      case (Inr b')
      with guard "1.prems" have "snd (compress_loop e b' (quality - 10) (tried @ [quality])) = Inr b"
        by (simp add: compress_loop.simps [of e buf quality])
      from "1.IH" [OF guard Inr this] guard Inr show ?thesis
        by (simp add: compress_loop.simps [of e buf quality] ladder.simps [of quality])
    qed
  qed
qed

lemma compress_loop_format:
  "snd (compress_loop e buf q tried) = Inr b \<Longrightarrow>
   \<forall>q b b'. sharp_jpeg e q b = Inr b' \<longrightarrow> sharp_metadata e b' = Inr ''jpeg'' \<Longrightarrow>
   b = buf \<or> sharp_metadata e b = Inr ''jpeg''"
proof (induction e buf q tried rule: compress_loop.induct)
  case (1 e buf quality tried)
  show ?case
  proof (cases "length buf > BLUESKY_IMAGE_MAX_SIZE \<and> quality > 10")
    case False
    with "1.prems"(1) show ?thesis
      by (auto simp add: compress_loop.simps [of e buf quality])
  next
    case True
    note guard = True
    show ?thesis
    proof (cases "sharp_jpeg e (Some quality) buf")
      case (Inl err)
      with guard "1.prems"(1) show ?thesis
        by (simp add: compress_loop.simps [of e buf quality])
    next
      case (Inr b')
      with guard "1.prems"(1)
      have "snd (compress_loop e b' (quality - 10) (tried @ [quality])) = Inr b"
        by (simp add: compress_loop.simps [of e buf quality])
      from "1.IH" [OF guard Inr this "1.prems"(2)]
      have "b = b' \<or> sharp_metadata e b = Inr ''jpeg''" .
      moreover from "1.prems"(2) Inr have "sharp_metadata e b' = Inr ''jpeg''"
        by blast
      ultimately show ?thesis by auto
    qed
  qed
qed

text \<open>
  Claim C9. The compression loop terminates for every input buffer (\<open>compress_loop\<close>
  is a total function, by the decreasing measure \<open>quality - 10\<close>). The qualities it
  hands to the encoder are an initial segment of 90, 80, ..., 20, so they strictly
  decrease from 90 in steps of 10, there are at most eight of them, and none is at or
  below the floor 10. When the loop ends without an exception, either the buffer fits
  in \<open>BLUESKY_IMAGE_MAX_SIZE\<close> or the whole ladder was tried; and it makes no further
  attempt as soon as the buffer fits or the quality has reached the floor.
\<close>

theorem compression_loop_bounded:
  "prefix (fst (compress_loop e buf 90 [])) [90, 80, 70, 60, 50, 40, 30, 20]
   \<and> (\<forall>q \<in> set (fst (compress_loop e buf 90 [])). 10 < q)
   \<and> (\<forall>b. snd (compress_loop e buf 90 []) = Inr b \<longrightarrow>
          length b \<le> BLUESKY_IMAGE_MAX_SIZE
          \<or> fst (compress_loop e buf 90 []) = [90, 80, 70, 60, 50, 40, 30, 20])
   \<and> (\<forall>b q tr. length b \<le> BLUESKY_IMAGE_MAX_SIZE \<or> q \<le> 10 \<longrightarrow>
          compress_loop e b q tr = (tr, Inr b))"
proof -
  obtain n where n: "fst (compress_loop e buf 90 []) = take n (ladder 90)"
    using compress_loop_trace [of e buf 90 "[]"] by auto
  have p: "prefix (fst (compress_loop e buf 90 [])) [90, 80, 70, 60, 50, 40, 30, 20]"
    unfolding n ladder_90 by (rule take_is_prefix)
  have "set (fst (compress_loop e buf 90 [])) \<subseteq> set [90, 80, 70, 60, 50, 40, 30, 20 :: int]"
    using p by (rule set_mono_prefix)
  then have q: "\<forall>q \<in> set (fst (compress_loop e buf 90 [])). 10 < q"
    by auto
  have x: "\<forall>b. snd (compress_loop e buf 90 []) = Inr b \<longrightarrow>
          length b \<le> BLUESKY_IMAGE_MAX_SIZE
          \<or> fst (compress_loop e buf 90 []) = [90, 80, 70, 60, 50, 40, 30, 20]"
    using compress_loop_exit [of e buf 90 "[]"] by (simp add: ladder_90)
  show ?thesis using p q x compress_loop_stop by blast
qed

theorem compression_loop_bounded_witness:
  "prefix [90, 80, 70] [90, 80, 70, 60, 50, 40, 30, 20 :: int]
   \<and> compress_loop ref_env (replicate 5000000 137) 90 [] = ([90, 80, 70], Inr (255 # replicate 625000 0))
   \<and> length (255 # replicate 625000 (0 :: 8 word)) \<le> BLUESKY_IMAGE_MAX_SIZE
   \<and> compress_loop ref_env [255, 216] 90 [] = ([], Inr [255, 216])"
  using compression_loop_bounded [of ref_env "replicate 5000000 137"]
  by (simp add: compress_loop.simps ref_env_def ref_jpeg_def BLUESKY_IMAGE_MAX_SIZE_def)


section \<open>Properties of the image normaliser\<close>

lemma processImageBuffer_Some:
  assumes c: "\<forall>q b b'. sharp_jpeg e q b = Inr b' \<longrightarrow> sharp_metadata e b' = Inr ''jpeg''"
    and r: "processImageBuffer e buffer = Inr (Some out)"
  shows "length out \<le> BLUESKY_IMAGE_MAX_SIZE
         \<and> (sharp_metadata e out = Inr ''jpeg'' \<or> sharp_metadata e out = Inr ''png'')"
proof -
  from r obtain format where m: "sharp_metadata e buffer = Inr format"
    by (auto simp add: processImageBuffer_def split: sum.splits)
  from r m obtain pb where
    pb: "(if format \<noteq> ''jpeg'' \<and> format \<noteq> ''png'' then sharp_jpeg e None buffer else Inr buffer)
         = Inr pb"
    by (auto simp add: processImageBuffer_def split: sum.splits)
  have fpb: "sharp_metadata e pb = Inr ''jpeg'' \<or> sharp_metadata e pb = Inr ''png''"
  proof (cases "format \<noteq> ''jpeg'' \<and> format \<noteq> ''png''")
    case True
    with pb have "sharp_jpeg e None buffer = Inr pb" by simp
    with c show ?thesis by blast
  next
    case False
    with pb m show ?thesis by auto
  qed
  from r m pb have fin:
    "(if length pb > BLUESKY_IMAGE_MAX_SIZE then snd (compress_loop e pb 90 []) else Inr pb)
      = Inr out" and len: "length out \<le> BLUESKY_IMAGE_MAX_SIZE"
    by (auto simp add: processImageBuffer_def split: sum.splits if_splits)
  have "out = pb \<or> sharp_metadata e out = Inr ''jpeg''"
  proof (cases "length pb > BLUESKY_IMAGE_MAX_SIZE")
    case True
    with fin have "snd (compress_loop e pb 90 []) = Inr out" by simp
    from compress_loop_format [OF this c] show ?thesis .
  next
    case False
    with fin show ?thesis by simp
  qed
  with fpb len show ?thesis by auto
qed

lemma processImageBuffer_None:
  assumes r: "processImageBuffer e buffer = Inr None"
  shows "\<exists>pb final. snd (compress_loop e pb 90 []) = Inr final
           \<and> BLUESKY_IMAGE_MAX_SIZE < length final
           \<and> fst (compress_loop e pb 90 []) = [90, 80, 70, 60, 50, 40, 30, 20]"
proof -
  from r obtain pb final where
    s: "snd (compress_loop e pb 90 []) = Inr final"
    and len: "length final > BLUESKY_IMAGE_MAX_SIZE"
    by (auto simp add: processImageBuffer_def split: sum.splits if_splits)
  from compress_loop_exit [OF s] len
  have "fst (compress_loop e pb 90 []) = [90, 80, 70, 60, 50, 40, 30, 20]"
    by (simp add: ladder_90)
  with s len show ?thesis by blast
qed

lemma processImage_Some:
  assumes c: "\<forall>q b b'. sharp_jpeg e q b = Inr b' \<longrightarrow> sharp_metadata e b' = Inr ''jpeg''"
    and r: "processImage e fs inputPath = (fs', Inr (Some p))"
  shows "\<exists>d. fs' p = Some d \<and> length d \<le> BLUESKY_IMAGE_MAX_SIZE
         \<and> (sharp_metadata e d = Inr ''jpeg'' \<or> sharp_metadata e d = Inr ''png'')"
proof -
  from r obtain buffer where b: "fs inputPath = Some buffer"
    by (auto simp add: processImage_def split: option.splits)
  from r b obtain format where m: "sharp_metadata e buffer = Inr format"
    by (auto simp add: processImage_def split: sum.splits)
  from r b m obtain outputPath buffer1 fs1 where
    conv: "(if format \<noteq> ''jpeg'' \<and> format \<noteq> ''png'' then
              (case sharp_jpeg e None buffer of
                 Inl err \<Rightarrow> Inl err
               | Inr b \<Rightarrow>
                   Inr (replace_extension inputPath ''.jpg'', b,
                        fs(replace_extension inputPath ''.jpg'' \<mapsto> b)))
            else Inr (inputPath, buffer, fs)) = Inr (outputPath, buffer1, fs1)"
    by (auto simp add: processImage_def split: sum.splits)
  have f1: "fs1 outputPath = Some buffer1
            \<and> (sharp_metadata e buffer1 = Inr ''jpeg'' \<or> sharp_metadata e buffer1 = Inr ''png'')"
  proof (cases "format \<noteq> ''jpeg'' \<and> format \<noteq> ''png''")
    case True
    with conv obtain b' where "sharp_jpeg e None buffer = Inr b'"
      and "outputPath = replace_extension inputPath ''.jpg''" and "buffer1 = b'"
      and "fs1 = fs(replace_extension inputPath ''.jpg'' \<mapsto> b')"
      by (auto split: sum.splits)
    with c show ?thesis by auto
  next
    case False
    with conv b m show ?thesis by auto
  qed
  from r b m conv obtain fs2 where
    wr: "(if length buffer1 > BLUESKY_IMAGE_MAX_SIZE then
            (case snd (compress_loop e buffer1 90 []) of
               Inl err \<Rightarrow> Inl err
             | Inr b \<Rightarrow> Inr (fs1(outputPath \<mapsto> b)))
          else Inr fs1) = Inr fs2"
    by (auto simp add: processImage_def split: sum.splits)
  from r b m conv wr obtain written where
    w: "fs2 outputPath = Some written" and len: "length written \<le> BLUESKY_IMAGE_MAX_SIZE"
    and res: "fs' = fs2" "p = outputPath"
    by (auto simp add: processImage_def split: option.splits if_splits)
  have "sharp_metadata e written = Inr ''jpeg'' \<or> sharp_metadata e written = Inr ''png''"
  proof (cases "length buffer1 > BLUESKY_IMAGE_MAX_SIZE")
    case True
    with wr obtain b' where s: "snd (compress_loop e buffer1 90 []) = Inr b'"
      and "fs2 = fs1(outputPath \<mapsto> b')"
      by (auto split: sum.splits)
    with w have "written = b'" by simp
    with compress_loop_format [OF s c] f1 show ?thesis by auto
  next
    case False
    with wr w f1 show ?thesis by auto
  qed
  with w len res show ?thesis by simp
qed

lemma processImage_None:
  assumes r: "processImage e fs inputPath = (fs', Inr None)"
  shows "\<exists>pb final. snd (compress_loop e pb 90 []) = Inr final
           \<and> BLUESKY_IMAGE_MAX_SIZE < length final
           \<and> fst (compress_loop e pb 90 []) = [90, 80, 70, 60, 50, 40, 30, 20]"
proof -
  from r obtain buffer where b: "fs inputPath = Some buffer"
    by (auto simp add: processImage_def split: option.splits)
  from r b obtain format where m: "sharp_metadata e buffer = Inr format"
    by (auto simp add: processImage_def split: sum.splits)
  from r b m obtain outputPath buffer1 fs1 where
    conv: "(if format \<noteq> ''jpeg'' \<and> format \<noteq> ''png'' then
              (case sharp_jpeg e None buffer of
                 Inl err \<Rightarrow> Inl err
               | Inr b \<Rightarrow>
                   Inr (replace_extension inputPath ''.jpg'', b,
                        fs(replace_extension inputPath ''.jpg'' \<mapsto> b)))
            else Inr (inputPath, buffer, fs)) = Inr (outputPath, buffer1, fs1)"
    by (auto simp add: processImage_def split: sum.splits)
  have f1: "fs1 outputPath = Some buffer1"
    using conv b by (auto split: if_splits sum.splits)
  from r b m conv obtain fs2 where
    wr: "(if length buffer1 > BLUESKY_IMAGE_MAX_SIZE then
            (case snd (compress_loop e buffer1 90 []) of
               Inl err \<Rightarrow> Inl err
             | Inr b \<Rightarrow> Inr (fs1(outputPath \<mapsto> b)))
          else Inr fs1) = Inr fs2"
    by (auto simp add: processImage_def split: sum.splits)
  from r b m conv wr obtain written where
    w: "fs2 outputPath = Some written" and len: "length written > BLUESKY_IMAGE_MAX_SIZE"
    by (auto simp add: processImage_def split: option.splits if_splits)
  have big: "length buffer1 > BLUESKY_IMAGE_MAX_SIZE"
  proof (rule ccontr)
    assume "\<not> length buffer1 > BLUESKY_IMAGE_MAX_SIZE"
    with wr w f1 len show False by auto
  qed
  with wr obtain b' where s: "snd (compress_loop e buffer1 90 []) = Inr b'"
    and "fs2 = fs1(outputPath \<mapsto> b')"
    by (auto split: sum.splits)
  with w have wb: "written = b'" by simp
  from compress_loop_exit [OF s] len wb
  have "fst (compress_loop e buffer1 90 []) = [90, 80, 70, 60, 50, 40, 30, 20]"
    by (simp add: ladder_90)
  with s len wb show ?thesis by blast
qed

lemma ref_contract:
  "\<forall>q b b'. sharp_jpeg ref_env q b = Inr b' \<longrightarrow> sharp_metadata ref_env b' = Inr ''jpeg''"
  by (auto simp add: ref_env_fields ref_jpeg_def ref_metadata_def)

text \<open>
  Claim C1. Provided sharp's JPEG encoder returns buffers that sharp reads as JPEG, a
  non-null result of \<open>processImageBuffer\<close> is a buffer of at most
  \<open>BLUESKY_IMAGE_MAX_SIZE\<close> bytes (1 MiB) in format jpeg or png, and a non-null result of
  \<open>processImage\<close> is the path of a file with such a content. \<open>null\<close> is returned only
  when all eight qualities of the ladder were tried and the last encoding is still
  larger than the bound.
\<close>

theorem image_normalizer_bounds:
  assumes "\<forall>q b b'. sharp_jpeg e q b = Inr b' \<longrightarrow> sharp_metadata e b' = Inr ''jpeg''"
  shows "(\<forall>out. processImageBuffer e buffer = Inr (Some out) \<longrightarrow>
            length out \<le> BLUESKY_IMAGE_MAX_SIZE
            \<and> (sharp_metadata e out = Inr ''jpeg'' \<or> sharp_metadata e out = Inr ''png''))
       \<and> (processImageBuffer e buffer = Inr None \<longrightarrow>
            (\<exists>pb final. snd (compress_loop e pb 90 []) = Inr final
               \<and> BLUESKY_IMAGE_MAX_SIZE < length final
               \<and> fst (compress_loop e pb 90 []) = [90, 80, 70, 60, 50, 40, 30, 20]))
       \<and> (\<forall>fs' p. processImage e fs inputPath = (fs', Inr (Some p)) \<longrightarrow>
            (\<exists>d. fs' p = Some d \<and> length d \<le> BLUESKY_IMAGE_MAX_SIZE
               \<and> (sharp_metadata e d = Inr ''jpeg'' \<or> sharp_metadata e d = Inr ''png'')))
       \<and> (\<forall>fs'. processImage e fs inputPath = (fs', Inr None) \<longrightarrow>
            (\<exists>pb final. snd (compress_loop e pb 90 []) = Inr final
               \<and> BLUESKY_IMAGE_MAX_SIZE < length final
               \<and> fst (compress_loop e pb 90 []) = [90, 80, 70, 60, 50, 40, 30, 20]))"
  using assms processImageBuffer_Some [of e buffer] processImageBuffer_None [of e buffer]
    processImage_Some [of e fs inputPath] processImage_None [of e fs inputPath]
  by blast

theorem image_normalizer_bounds_witness:
  "processImageBuffer ref_env (replicate 5000000 137) = Inr (Some (255 # replicate 625000 0))
   \<and> length (255 # replicate 625000 (0 :: 8 word)) \<le> BLUESKY_IMAGE_MAX_SIZE
   \<and> sharp_metadata ref_env (255 # replicate 625000 0) = Inr ''jpeg''
   \<and> snd (processImage ref_env [''/tmp/1_2.webp'' \<mapsto> [82, 73, 70, 70]] ''/tmp/1_2.webp'')
       = Inr (Some ''/tmp/1_2.jpg'')
   \<and> fst (processImage ref_env [''/tmp/1_2.webp'' \<mapsto> [82, 73, 70, 70]] ''/tmp/1_2.webp'')
        ''/tmp/1_2.jpg'' = Some [255, 0, 0]"
  using image_normalizer_bounds [OF ref_contract, of "replicate 5000000 137"
      "[''/tmp/1_2.webp'' \<mapsto> [82, 73, 70, 70]]" "''/tmp/1_2.webp''"]
  by (simp add: processImageBuffer_def processImage_def compress_loop.simps
      replace_extension_def ref_env_fields ref_jpeg_def ref_metadata_def
      BLUESKY_IMAGE_MAX_SIZE_def)


section \<open>Properties of the video normaliser\<close>

lemma media_step_buffers_video:
  "(\<forall>v. videoBuffer acc = Some v \<longrightarrow> length v \<le> BLUESKY_VIDEO_MAX_SIZE) \<Longrightarrow>
   videoBuffer (media_step_buffers e acc media) = Some v \<Longrightarrow>
   length v \<le> BLUESKY_VIDEO_MAX_SIZE"
  by (auto simp add: media_step_buffers_def split: if_splits sum.splits option.splits)

lemma foldl_media_step_video:
  "(\<forall>v. videoBuffer acc = Some v \<longrightarrow> length v \<le> BLUESKY_VIDEO_MAX_SIZE) \<Longrightarrow>
   videoBuffer (foldl (media_step_buffers e) acc ms) = Some v \<Longrightarrow>
   length v \<le> BLUESKY_VIDEO_MAX_SIZE"
proof (induction ms arbitrary: v rule: rev_induct)
  case Nil
  then show ?case by simp
next
  case (snoc m ms)
  have "\<forall>v. videoBuffer (foldl (media_step_buffers e) acc ms) = Some v
          \<longrightarrow> length v \<le> BLUESKY_VIDEO_MAX_SIZE"
    using snoc.IH snoc.prems(1) by blast
  from media_step_buffers_video [OF this] snoc.prems(2) show ?case by simp
qed

lemma collect_media_video:
  "videoBuffer (collect_media e post) = Some v \<Longrightarrow> length v \<le> BLUESKY_VIDEO_MAX_SIZE"
  using foldl_media_step_video
    [of "\<lparr>imageBuffers = [], videoBuffer = None, skipDueToVideo = False\<rparr>" e
      "media_attachments post" v]
  by (simp add: collect_media_def)

lemma media_step_buffers_skip_mono:
  "skipDueToVideo acc \<Longrightarrow> skipDueToVideo (media_step_buffers e acc media)"
  by (auto simp add: media_step_buffers_def split: if_splits sum.splits option.splits)

lemma foldl_media_step_skip_mono:
  "skipDueToVideo acc \<Longrightarrow> skipDueToVideo (foldl (media_step_buffers e) acc ms)"
  by (induction ms arbitrary: acc) (simp_all add: media_step_buffers_skip_mono)

lemma media_step_buffers_oversized:
  "media_type media = ''video'' \<Longrightarrow> fetch_media e (media_url media) = Inr buffer \<Longrightarrow>
   BLUESKY_VIDEO_MAX_SIZE < length buffer \<Longrightarrow>
   skipDueToVideo (media_step_buffers e acc media)"
  by (simp add: media_step_buffers_def)

lemma foldl_media_step_oversized:
  "media \<in> set ms \<Longrightarrow> media_type media = ''video'' \<Longrightarrow>
   fetch_media e (media_url media) = Inr buffer \<Longrightarrow>
   BLUESKY_VIDEO_MAX_SIZE < length buffer \<Longrightarrow>
   skipDueToVideo (foldl (media_step_buffers e) acc ms)"
proof (induction ms arbitrary: acc)
  case Nil
  then show ?case by simp
next
  case (Cons m ms)
  show ?case
  proof (cases "media = m")
    case True
    with Cons.prems have "skipDueToVideo (media_step_buffers e acc m)"
      by (simp add: media_step_buffers_oversized)
    then show ?thesis by (simp add: foldl_media_step_skip_mono)
  next
    case False
    with Cons show ?thesis by simp
  qed
qed

lemma postToBlueSky_buffers_video:
  "postToBlueSky_buffers e richText imgs vid = Inr published \<Longrightarrow>
   bp_embed published = Some (EmbedMediaVideo b alt) \<Longrightarrow>
   vid = Some (blob_data b)"
  by (auto simp add: postToBlueSky_buffers_def agent_post_def uploadBlob_def
      split: option.splits sum.splits if_splits)

lemma processVideo_Some:
  "processVideo e fs inputPath = (fs', Some p) \<Longrightarrow>
   \<exists>d. fs' p = Some d \<and> length d \<le> BLUESKY_VIDEO_MAX_SIZE"
  by (auto simp add: processVideo_def Let_def split: option.splits sum.splits if_splits)

lemma process_post_buffers_skip:
  "skipDueToVideo (collect_media e post) \<Longrightarrow> feed (process_post_buffers e w post) = feed w"
  by (auto simp add: process_post_buffers_def mark_posted_def savePostedIds_def
      split: option.splits sum.splits)

lemma process_post_buffers_feed:
  "feed (process_post_buffers e w post) = feed w
   \<or> (\<exists>published. feed (process_post_buffers e w post) = feed w @ [published]
        \<and> (\<forall>b alt. bp_embed published = Some (EmbedMediaVideo b alt) \<longrightarrow>
              length (blob_data b) \<le> BLUESKY_VIDEO_MAX_SIZE))"
proof (cases "mastodonToRichText e (or_empty (post_body post))")
  case (Inl err)
  then show ?thesis by (simp add: process_post_buffers_def)
next
  case (Inr r)
  show ?thesis
  proof (cases r)
    case None
    with Inr show ?thesis by (simp add: process_post_buffers_def)
  next
    case (Some richText)
    show ?thesis
    proof (cases "postToBlueSky_buffers e richText (imageBuffers (collect_media e post))
                    (videoBuffer (collect_media e post))")
      case (Inl err)
      with Inr Some show ?thesis
        by (simp add: process_post_buffers_def mark_posted_def savePostedIds_def
            split: option.splits)
    next
      case pub: (Inr published)
      have "\<forall>b alt. bp_embed published = Some (EmbedMediaVideo b alt) \<longrightarrow>
              length (blob_data b) \<le> BLUESKY_VIDEO_MAX_SIZE"
        using postToBlueSky_buffers_video [OF pub] collect_media_video [of e post]
        by blast
      with Inr Some pub show ?thesis
        by (simp add: process_post_buffers_def mark_posted_def savePostedIds_def
            split: option.splits)
    qed
  qed
qed

lemma ref_collect_small:
  "collect_media ref_env (ref_post ''2'' ''hi'' [(''9'', ''video'', ''video'')])
   = \<lparr>imageBuffers = [], videoBuffer = Some [0, 0, 0, 24], skipDueToVideo = False\<rparr>"
  by (simp add: collect_media_def ref_post_def media_step_buffers_def ref_env_fields
      ref_fetch_media_def BLUESKY_VIDEO_MAX_SIZE_def)

lemma ref_small_rich_text:
  "mastodonToRichText ref_env
     (or_empty (post_body (ref_post ''2'' ''hi'' [(''9'', ''video'', ''video'')])))
   = Inr (Some \<lparr>rt_text = ''hi'', rt_facets = []\<rparr>)"
  by (simp add: mastodonToRichText_def post_body_def js_or_def truthy_def or_empty_def
      ref_post_def ref_env_fields)

lemma ref_small_video_run:
  "feed (process_post_buffers ref_env (start [] [] Map.empty)
     (ref_post ''2'' ''hi'' [(''9'', ''video'', ''video'')]))
   = [\<lparr>bp_text = Some ''hi'', bp_facets = Some [],
       bp_embed = Some (EmbedMediaVideo
         \<lparr>blob_data = [0, 0, 0, 24], blob_mime = ''video/mp4''\<rparr>
         ''Video reposted from Mastodon'')\<rparr>]"
  by (simp add: process_post_buffers_def ref_small_rich_text ref_collect_small
      BLUESKY_MAX_CHARS_def postToBlueSky_buffers_def uploadBlob_def agent_post_def
      mark_posted_def savePostedIds_def ref_env_fields start_def)

lemma ref_collect_huge:
  "collect_media ref_env (ref_post ''1'' ''hi'' [(''9'', ''video'', ''huge-video'')])
   = \<lparr>imageBuffers = [], videoBuffer = None, skipDueToVideo = True\<rparr>"
  by (simp add: collect_media_def ref_post_def media_step_buffers_def ref_env_fields
      ref_fetch_media_def BLUESKY_VIDEO_MAX_SIZE_def)

text \<open>
  Claim C2. \<open>processVideo\<close> resolves either \<open>null\<close> or the path of a file of at most
  \<open>BLUESKY_VIDEO_MAX_SIZE\<close> bytes (100 MiB). In \<^verbatim>\<open>part_000\<close> the video buffer kept by
  the media loop is at most that large; a downloaded video above the bound sets
  \<open>skipDueToVideo\<close>, and then nothing is published for the post; and a video embed that
  the loop body publishes holds at most \<open>BLUESKY_VIDEO_MAX_SIZE\<close> bytes.
\<close>

theorem video_normalizer_bounds:
  "(\<forall>fs' p. processVideo e fs inputPath = (fs', Some p) \<longrightarrow>
      (\<exists>d. fs' p = Some d \<and> length d \<le> BLUESKY_VIDEO_MAX_SIZE))
   \<and> (\<forall>v. videoBuffer (collect_media e post) = Some v \<longrightarrow>
         length v \<le> BLUESKY_VIDEO_MAX_SIZE)
   \<and> (\<forall>media \<in> set (media_attachments post). \<forall>buffer.
         media_type media = ''video'' \<and> fetch_media e (media_url media) = Inr buffer
         \<and> BLUESKY_VIDEO_MAX_SIZE < length buffer \<longrightarrow>
         skipDueToVideo (collect_media e post)
         \<and> feed (process_post_buffers e w post) = feed w)
   \<and> (feed (process_post_buffers e w post) = feed w
       \<or> (\<exists>published. feed (process_post_buffers e w post) = feed w @ [published]
            \<and> (\<forall>b alt. bp_embed published = Some (EmbedMediaVideo b alt) \<longrightarrow>
                  length (blob_data b) \<le> BLUESKY_VIDEO_MAX_SIZE)))"
proof -
  have a: "\<forall>fs' p. processVideo e fs inputPath = (fs', Some p) \<longrightarrow>
      (\<exists>d. fs' p = Some d \<and> length d \<le> BLUESKY_VIDEO_MAX_SIZE)"
    using processVideo_Some by blast
  have b: "\<forall>v. videoBuffer (collect_media e post) = Some v \<longrightarrow>
         length v \<le> BLUESKY_VIDEO_MAX_SIZE"
    using collect_media_video by blast
  have c: "\<forall>media \<in> set (media_attachments post). \<forall>buffer.
         media_type media = ''video'' \<and> fetch_media e (media_url media) = Inr buffer
         \<and> BLUESKY_VIDEO_MAX_SIZE < length buffer \<longrightarrow>
         skipDueToVideo (collect_media e post)
         \<and> feed (process_post_buffers e w post) = feed w"
  proof (intro ballI allI impI)
    fix media buffer
    assume m: "media \<in> set (media_attachments post)"
      and h: "media_type media = ''video'' \<and> fetch_media e (media_url media) = Inr buffer
         \<and> BLUESKY_VIDEO_MAX_SIZE < length buffer"
    then have "skipDueToVideo (collect_media e post)"
      unfolding collect_media_def by (intro foldl_media_step_oversized [of media]) auto
    then show "skipDueToVideo (collect_media e post)
         \<and> feed (process_post_buffers e w post) = feed w"
      by (simp add: process_post_buffers_skip)
  qed
  from a b c process_post_buffers_feed [of e w post] show ?thesis by blast
qed

theorem video_normalizer_bounds_witness:
  "processVideo ref_env [''/tmp/1_9.mp4'' \<mapsto> [0, 0, 0, 24]] ''/tmp/1_9.mp4''
     = ([''/tmp/1_9.mp4'' \<mapsto> [0, 0, 0, 24], ''/tmp/1_9_bsky.mp4'' \<mapsto> [0, 0, 0]],
        Some ''/tmp/1_9_bsky.mp4'')
   \<and> length [0, 0, 0 :: 8 word] \<le> BLUESKY_VIDEO_MAX_SIZE
   \<and> skipDueToVideo
        (collect_media ref_env (ref_post ''1'' ''hi'' [(''9'', ''video'', ''huge-video'')]))
   \<and> feed (process_post_buffers ref_env (start [] [] Map.empty)
        (ref_post ''1'' ''hi'' [(''9'', ''video'', ''huge-video'')])) = []
   \<and> videoBuffer
        (collect_media ref_env (ref_post ''2'' ''hi'' [(''9'', ''video'', ''video'')]))
       = Some [0, 0, 0, 24]
   \<and> length [0, 0, 0, 24 :: 8 word] \<le> BLUESKY_VIDEO_MAX_SIZE
   \<and> feed (process_post_buffers ref_env (start [] [] Map.empty)
        (ref_post ''2'' ''hi'' [(''9'', ''video'', ''video'')]))
       = [\<lparr>bp_text = Some ''hi'', bp_facets = Some [],
           bp_embed = Some (EmbedMediaVideo
             \<lparr>blob_data = [0, 0, 0, 24], blob_mime = ''video/mp4''\<rparr>
             ''Video reposted from Mastodon'')\<rparr>]"
proof -
  have l1: "processVideo ref_env [''/tmp/1_9.mp4'' \<mapsto> [0, 0, 0, 24]] ''/tmp/1_9.mp4''
     = ([''/tmp/1_9.mp4'' \<mapsto> [0, 0, 0, 24], ''/tmp/1_9_bsky.mp4'' \<mapsto> [0, 0, 0]],
        Some ''/tmp/1_9_bsky.mp4'')"
    by (simp add: processVideo_def replace_extension_def ref_env_fields
        BLUESKY_VIDEO_MAX_SIZE_def Let_def)
  have l2: "length [0, 0, 0 :: 8 word] \<le> BLUESKY_VIDEO_MAX_SIZE"
    "length [0, 0, 0, 24 :: 8 word] \<le> BLUESKY_VIDEO_MAX_SIZE"
    by (simp_all add: BLUESKY_VIDEO_MAX_SIZE_def)
  have l3: "skipDueToVideo
        (collect_media ref_env (ref_post ''1'' ''hi'' [(''9'', ''video'', ''huge-video'')]))"
    by (simp add: ref_collect_huge)
  have l4: "feed (process_post_buffers ref_env (start [] [] Map.empty)
        (ref_post ''1'' ''hi'' [(''9'', ''video'', ''huge-video'')])) = []"
    by (simp add: process_post_buffers_skip [OF l3] start_def)
  have l5: "videoBuffer
        (collect_media ref_env (ref_post ''2'' ''hi'' [(''9'', ''video'', ''video'')]))
       = Some [0, 0, 0, 24]"
    by (simp add: ref_collect_small)
  from video_normalizer_bounds [of ref_env "[''/tmp/1_9.mp4'' \<mapsto> [0, 0, 0, 24]]"
      "''/tmp/1_9.mp4''" "ref_post ''1'' ''hi'' [(''9'', ''video'', ''huge-video'')]"
      "start [] [] Map.empty"]
    video_normalizer_bounds [of ref_env "[''/tmp/1_9.mp4'' \<mapsto> [0, 0, 0, 24]]"
      "''/tmp/1_9.mp4''" "ref_post ''2'' ''hi'' [(''9'', ''video'', ''video'')]"
      "start [] [] Map.empty"]
    l1 l2 l3 l4 l5 ref_small_video_run
  show ?thesis by simp
qed

section \<open>Properties of the embed\<close>

lemma upload_buffers_entries:
  "upload_buffers e bufs uploaded = Inr result \<Longrightarrow>
   result = uploaded @ map (\<lambda>b. image_of \<lparr>blob_data = b, blob_mime = ''image/jpeg''\<rparr>) bufs"
proof (induction bufs arbitrary: uploaded)
  case Nil
  then show ?case by simp
next
  case (Cons buffer rest)
  from Cons.prems obtain b where
    up: "uploadBlob e buffer ''image/jpeg'' = Inr b"
    and rec: "upload_buffers e rest (uploaded @ [image_of b]) = Inr result"
    by (auto split: sum.splits)
  from up have "b = \<lparr>blob_data = buffer, blob_mime = ''image/jpeg''\<rparr>"
    by (auto simp add: uploadBlob_def split: option.splits)
  with Cons.IH [OF rec] show ?case by simp
qed

lemma upload_rich_entries:
  "upload_rich e fs files uploaded = Inr result \<Longrightarrow>
   map (\<lambda>i. Some (blob_data (entry_image i))) result
     = map (\<lambda>i. Some (blob_data (entry_image i))) uploaded @ map fs files"
proof (induction files arbitrary: uploaded)
  case Nil
  then show ?case by simp
next
  case (Cons f rest)
  from Cons.prems obtain data b where
    rd: "fs f = Some data"
    and up: "uploadBlob e data (if ends_with f ''.png'' then ''image/png'' else ''image/jpeg'')
             = Inr b"
    and rec: "upload_rich e fs rest (uploaded @ [image_of b]) = Inr result"
    by (auto split: sum.splits option.splits)
  from up have "blob_data b = data"
    by (auto simp add: uploadBlob_def split: option.splits)
  with Cons.IH [OF rec] rd show ?case by (simp add: image_of_def)
qed

lemma upload_repost_length:
  "upload_repost e fs files uploaded = Inr result \<Longrightarrow>
   length result = length uploaded + length files"
proof (induction files arbitrary: uploaded)
  case Nil
  then show ?case by simp
next
  case (Cons f rest)
  from Cons.prems obtain b where
    rec: "upload_repost e fs rest (uploaded @ [image_of b]) = Inr result"
    by (auto split: sum.splits option.splits)
  from Cons.IH [OF rec] show ?case by simp
qed

lemma image_mime: "starts_with (mime_of_repost file) ''image/'' = (\<not> ends_with file ''.mp4'')"
  by (simp add: mime_of_repost_def starts_with_def)

lemma upload_files_length:
  "upload_files e fs files (uploaded, emb) = Inr (result, emb') \<Longrightarrow>
   length result = length uploaded + length (filter (\<lambda>f. \<not> ends_with f ''.mp4'') files)"
proof (induction files arbitrary: uploaded emb)
  case Nil
  then show ?case by simp
next
  case (Cons f files)
  then show ?case
    by (auto simp add: image_mime split: sum.splits option.splits if_splits)
qed

lemma postToBlueSky_buffers_exclusive:
  assumes "postToBlueSky_buffers e richText imgs (Some video) = Inr published"
  shows "bp_embed published
         = Some (EmbedMediaVideo \<lparr>blob_data = video, blob_mime = ''video/mp4''\<rparr>
                   ''Video reposted from Mastodon'')"
  using assms
  by (auto simp add: postToBlueSky_buffers_def agent_post_def uploadBlob_def
      split: option.splits sum.splits)

lemma postToBlueSky_rich_exclusive:
  assumes "postToBlueSky_rich e fs richText mediaFiles = Inr published"
    and "filter (\<lambda>f. ends_with f ''.mp4'') mediaFiles = videoPath # others"
  shows "\<exists>videoData. fs videoPath = Some videoData \<and> bp_embed published
         = Some (EmbedMediaVideo \<lparr>blob_data = videoData, blob_mime = ''video/mp4''\<rparr>
                   ''Video reposted from Mastodon'')"
  using assms
  by (auto simp add: postToBlueSky_rich_def agent_post_def uploadBlob_def
      split: option.splits sum.splits)

lemma postToBlueSky_files_images:
  assumes "postToBlueSky_files e fs text mediaFiles = Inr published"
    and "f \<in> set mediaFiles" and "\<not> ends_with f ''.mp4''"
  shows "\<exists>imgs. bp_embed published = Some (EmbedImages imgs)
           \<and> length imgs = length (filter (\<lambda>f. \<not> ends_with f ''.mp4'') mediaFiles)"
proof -
  from assms(2) have ne: "length mediaFiles > 0" by (cases mediaFiles) auto
  from assms(1) ne obtain uploaded emb where
    u: "upload_files e fs mediaFiles ([], None) = Inr (uploaded, emb)"
    by (auto simp add: postToBlueSky_files_def split: sum.splits)
  from upload_files_length [OF u]
  have len: "length uploaded = length (filter (\<lambda>f. \<not> ends_with f ''.mp4'') mediaFiles)"
    by simp
  from assms(2,3) have "filter (\<lambda>f. \<not> ends_with f ''.mp4'') mediaFiles \<noteq> []"
    by (auto simp add: filter_empty_conv)
  with len have "uploaded \<noteq> []" by auto
  with assms(1) ne u len show ?thesis
    by (auto simp add: postToBlueSky_files_def agent_post_def split: option.splits)
qed

lemma postToBlueSky_repost_images:
  assumes "postToBlueSky_repost e fs text mediaFiles = Inr published"
    and "mediaFiles \<noteq> []"
  shows "\<exists>imgs. bp_embed published = Some (EmbedImages imgs)
           \<and> length imgs = length mediaFiles"
proof -
  from assms obtain uploaded where
    u: "upload_repost e fs mediaFiles [] = Inr uploaded"
    by (auto simp add: postToBlueSky_repost_def split: sum.splits)
  from upload_repost_length [OF u] assms u show ?thesis
    by (auto simp add: postToBlueSky_repost_def agent_post_def split: option.splits)
qed

lemma postToBlueSky_buffers_gallery:
  assumes "postToBlueSky_buffers e richText imgs None = Inr published"
  shows "bp_embed published
         = (if imgs = [] then None
            else Some (EmbedImages
                   (map (\<lambda>b. image_of \<lparr>blob_data = b, blob_mime = ''image/jpeg''\<rparr>) imgs)))"
  using assms
  by (auto simp add: postToBlueSky_buffers_def agent_post_def
      split: option.splits sum.splits if_splits dest: upload_buffers_entries)

lemma postToBlueSky_rich_gallery:
  assumes "postToBlueSky_rich e fs richText mediaFiles = Inr published"
    and "filter (\<lambda>f. ends_with f ''.mp4'') mediaFiles = []"
    and "mediaFiles \<noteq> []"
  shows "\<exists>entries. bp_embed published = Some (EmbedImages entries)
           \<and> map (\<lambda>i. Some (blob_data (entry_image i))) entries = map fs mediaFiles"
proof -
  from assms(2) have all: "filter (\<lambda>f. \<not> ends_with f ''.mp4'') mediaFiles = mediaFiles"
    by (simp add: filter_empty_conv)
  from assms all obtain uploaded where
    u: "upload_rich e fs mediaFiles [] = Inr uploaded"
    by (auto simp add: postToBlueSky_rich_def split: sum.splits)
  from upload_rich_entries [OF u] assms all u show ?thesis
    by (auto simp add: postToBlueSky_rich_def agent_post_def split: option.splits)
qed

lemma ref_publish_files:
  "postToBlueSky_files ref_env ref_files (Some ''hi'')
     [''/tmp/mastodon_media/1_1.jpg'', ''/tmp/mastodon_media/1_2.mp4'']
   = Inr \<lparr>bp_text = Some ''hi'', bp_facets = None,
          bp_embed = Some (EmbedImages
            [image_of \<lparr>blob_data = [255, 216, 255], blob_mime = ''image/jpeg''\<rparr>])\<rparr>"
  by (simp add: postToBlueSky_files_def ref_files_def mime_of_repost_def ends_with_def
      starts_with_def uploadBlob_def agent_post_def ref_env_fields)

lemma ref_publish_repost:
  "postToBlueSky_repost ref_env ref_files (Some ''hi'')
     [''/tmp/mastodon_media/1_1.jpg'', ''/tmp/mastodon_media/1_2.mp4'']
   = Inr \<lparr>bp_text = Some ''hi'', bp_facets = None,
          bp_embed = Some (EmbedImages
            [image_of \<lparr>blob_data = [255, 216, 255], blob_mime = ''image/jpeg''\<rparr>,
             image_of \<lparr>blob_data = [0, 0, 0, 24], blob_mime = ''video/mp4''\<rparr>])\<rparr>"
  by (simp add: postToBlueSky_repost_def ref_files_def mime_of_repost_def ends_with_def
      uploadBlob_def agent_post_def ref_env_fields)

lemma ref_publish_buffers:
  "postToBlueSky_buffers ref_env ref_rich [[255, 216, 255]] (Some [0, 0, 0, 24])
   = Inr \<lparr>bp_text = Some ''hi'', bp_facets = Some [],
          bp_embed = Some (EmbedMediaVideo
            \<lparr>blob_data = [0, 0, 0, 24], blob_mime = ''video/mp4''\<rparr>
            ''Video reposted from Mastodon'')\<rparr>"
  by (simp add: postToBlueSky_buffers_def ref_rich_def uploadBlob_def agent_post_def
      ref_env_fields)

lemma ref_publish_rich:
  "postToBlueSky_rich ref_env ref_files ref_rich
     [''/tmp/mastodon_media/1_1.jpg'', ''/tmp/mastodon_media/1_2.mp4'']
   = Inr \<lparr>bp_text = Some ''hi'', bp_facets = Some [],
          bp_embed = Some (EmbedMediaVideo
            \<lparr>blob_data = [0, 0, 0, 24], blob_mime = ''video/mp4''\<rparr>
            ''Video reposted from Mastodon'')\<rparr>"
  by (simp add: postToBlueSky_rich_def ref_files_def ref_rich_def ends_with_def
      uploadBlob_def agent_post_def ref_env_fields)

lemma ref_publish_six:
  "postToBlueSky_buffers ref_env ref_rich ref_six None
   = Inr \<lparr>bp_text = Some ''hi'', bp_facets = Some [],
          bp_embed = Some (EmbedImages
            [image_of \<lparr>blob_data = [255, 216, 1], blob_mime = ''image/jpeg''\<rparr>,
             image_of \<lparr>blob_data = [255, 216, 2], blob_mime = ''image/jpeg''\<rparr>,
             image_of \<lparr>blob_data = [255, 216, 3], blob_mime = ''image/jpeg''\<rparr>,
             image_of \<lparr>blob_data = [255, 216, 4], blob_mime = ''image/jpeg''\<rparr>,
             image_of \<lparr>blob_data = [255, 216, 5], blob_mime = ''image/jpeg''\<rparr>,
             image_of \<lparr>blob_data = [255, 216, 6], blob_mime = ''image/jpeg''\<rparr>])\<rparr>"
  by (simp add: postToBlueSky_buffers_def ref_rich_def ref_six_def uploadBlob_def
      agent_post_def ref_env_fields)

lemma ref_publish_gallery_rich:
  "postToBlueSky_rich ref_env ref_files ref_rich [''/tmp/mastodon_media/1_1.jpg'']
   = Inr \<lparr>bp_text = Some ''hi'', bp_facets = Some [],
          bp_embed = Some (EmbedImages
            [image_of \<lparr>blob_data = [255, 216, 255], blob_mime = ''image/jpeg''\<rparr>])\<rparr>"
  by (simp add: postToBlueSky_rich_def ref_files_def ref_rich_def ends_with_def
      uploadBlob_def agent_post_def ref_env_fields)

lemma upload_repost_exact:
  "upload_repost e fs files uploaded = Inr result \<Longrightarrow>
   result = uploaded
       @ map (\<lambda>f. image_of \<lparr>blob_data = the (fs f), blob_mime = mime_of_repost f\<rparr>) files
   \<and> (\<forall>f \<in> set files. \<exists>d. fs f = Some d)"
proof (induction files arbitrary: uploaded)
  case Nil
  then show ?case by simp
next
  case (Cons f rest)
  from Cons.prems obtain d b where rd: "fs f = Some d"
    and up: "uploadBlob e d (mime_of_repost f) = Inr b"
    and rec: "upload_repost e fs rest (uploaded @ [image_of b]) = Inr result"
    by (auto split: sum.splits option.splits)
  from up have "b = \<lparr>blob_data = d, blob_mime = mime_of_repost f\<rparr>"
    by (auto simp add: uploadBlob_def split: option.splits)
  with Cons.IH [OF rec] rd show ?case by simp
qed

lemma upload_files_exact:
  "upload_files e fs files (uploaded, emb) = Inr (result, emb') \<Longrightarrow>
   result = uploaded
       @ map (\<lambda>f. image_of \<lparr>blob_data = the (fs f), blob_mime = mime_of_repost f\<rparr>)
           (filter (\<lambda>f. \<not> ends_with f ''.mp4'') files)
   \<and> (\<forall>f \<in> set files. \<exists>d. fs f = Some d)
   \<and> emb' = (if filter (\<lambda>f. ends_with f ''.mp4'') files = [] then emb
              else Some (EmbedExternal [] ''Video reposted from Mastodon'' []
                     \<lparr>blob_data = the (fs (last (filter (\<lambda>f. ends_with f ''.mp4'') files))),
                      blob_mime = ''video/mp4''\<rparr>))"
proof (induction files arbitrary: uploaded emb)
  case Nil
  then show ?case by simp
next
  case (Cons f rest)
  from Cons.prems obtain d b where rd: "fs f = Some d"
    and up: "uploadBlob e d (mime_of_repost f) = Inr b"
    by (auto split: sum.splits option.splits)
  from up have b: "b = \<lparr>blob_data = d, blob_mime = mime_of_repost f\<rparr>"
    by (auto simp add: uploadBlob_def split: option.splits)
  show ?case
  proof (cases "ends_with f ''.mp4''")
    case False
    with Cons.prems rd up
    have rec: "upload_files e fs rest (uploaded @ [image_of b], emb) = Inr (result, emb')"
      by (simp add: image_mime)
    from Cons.IH [OF rec] rd b False show ?thesis by simp
  next
    case True
    then have m: "mime_of_repost f = ''video/mp4''" by (simp add: mime_of_repost_def)
    with Cons.prems rd up True
    have rec: "upload_files e fs rest
        (uploaded, Some (EmbedExternal [] ''Video reposted from Mastodon'' [] b))
        = Inr (result, emb')"
      by (simp add: starts_with_def)
    from Cons.IH [OF rec] rd b m True show ?thesis by simp
  qed
qed

lemma postToBlueSky_files_embed:
  assumes "postToBlueSky_files e fs text mediaFiles = Inr published"
  shows "bp_embed published =
      (if filter (\<lambda>f. \<not> ends_with f ''.mp4'') mediaFiles \<noteq> [] then
         Some (EmbedImages
           (map (\<lambda>f. image_of \<lparr>blob_data = the (fs f), blob_mime = mime_of_repost f\<rparr>)
              (filter (\<lambda>f. \<not> ends_with f ''.mp4'') mediaFiles)))
       else if mediaFiles \<noteq> [] then
         Some (EmbedExternal [] ''Video reposted from Mastodon'' []
           \<lparr>blob_data = the (fs (last mediaFiles)), blob_mime = ''video/mp4''\<rparr>)
       else None)
     \<and> (\<forall>f \<in> set mediaFiles. \<exists>d. fs f = Some d)"
proof (cases "mediaFiles = []")
  case True
  with assms show ?thesis
    by (auto simp add: postToBlueSky_files_def agent_post_def split: option.splits)
next
  case False
  with assms obtain uploaded emb where
    u: "upload_files e fs mediaFiles ([], None) = Inr (uploaded, emb)"
    by (auto simp add: postToBlueSky_files_def split: sum.splits)
  note x = upload_files_exact [OF u]
  from assms False u have p: "bp_embed published
      = (if length uploaded > 0 then Some (EmbedImages uploaded) else emb)"
    by (auto simp add: postToBlueSky_files_def agent_post_def split: option.splits)
  show ?thesis
  proof (cases "filter (\<lambda>f. \<not> ends_with f ''.mp4'') mediaFiles = []")
    case imgs: False
    with x p show ?thesis by simp
  next
    case imgs: True
    then have all: "filter (\<lambda>f. ends_with f ''.mp4'') mediaFiles = mediaFiles"
      by (simp add: filter_empty_conv filter_id_conv)
    with x p imgs False show ?thesis by simp
  qed
qed

lemma postToBlueSky_repost_embed:
  assumes "postToBlueSky_repost e fs text mediaFiles = Inr published"
  shows "bp_embed published =
      (if mediaFiles \<noteq> [] then
         Some (EmbedImages
           (map (\<lambda>f. image_of \<lparr>blob_data = the (fs f), blob_mime = mime_of_repost f\<rparr>)
              mediaFiles))
       else None)
     \<and> (\<forall>f \<in> set mediaFiles. \<exists>d. fs f = Some d)"
proof (cases "mediaFiles = []")
  case True
  with assms show ?thesis
    by (auto simp add: postToBlueSky_repost_def agent_post_def split: option.splits)
next
  case False
  with assms obtain uploaded where
    u: "upload_repost e fs mediaFiles [] = Inr uploaded"
    by (auto simp add: postToBlueSky_repost_def split: sum.splits)
  from upload_repost_exact [OF u] assms False u show ?thesis
    by (auto simp add: postToBlueSky_repost_def agent_post_def split: option.splits)
qed

lemma ref_publish_video_alone:
  "postToBlueSky_files ref_env ref_files (Some ''hi'') [''/tmp/mastodon_media/1_2.mp4'']
   = Inr \<lparr>bp_text = Some ''hi'', bp_facets = None,
          bp_embed = Some (EmbedExternal [] ''Video reposted from Mastodon'' []
            \<lparr>blob_data = [0, 0, 0, 24], blob_mime = ''video/mp4''\<rparr>)\<rparr>"
  by (simp add: postToBlueSky_files_def ref_files_def mime_of_repost_def ends_with_def
      starts_with_def uploadBlob_def agent_post_def ref_env_fields)

text \<open>
  Claim C4, as stated, fails: with one image file and one video file, \<open>postToBlueSky\<close>
  of the first script of \<^verbatim>\<open>part_001\<close> publishes an images embed with the image and no
  video, and \<open>postToBlueSky\<close> of \<^verbatim>\<open>repost.js\<close> publishes an images embed with two
  entries, the video among them.
\<close>

theorem embed_exclusivity_counterexample:
  "embed_videos (published_embed (postToBlueSky_files ref_env ref_files (Some ''hi'')
      [''/tmp/mastodon_media/1_1.jpg'', ''/tmp/mastodon_media/1_2.mp4''])) = []
   \<and> length (embed_images (published_embed (postToBlueSky_files ref_env ref_files (Some ''hi'')
      [''/tmp/mastodon_media/1_1.jpg'', ''/tmp/mastodon_media/1_2.mp4'']))) = 1
   \<and> embed_videos (published_embed (postToBlueSky_repost ref_env ref_files (Some ''hi'')
      [''/tmp/mastodon_media/1_1.jpg'', ''/tmp/mastodon_media/1_2.mp4''])) = []
   \<and> length (embed_images (published_embed (postToBlueSky_repost ref_env ref_files (Some ''hi'')
      [''/tmp/mastodon_media/1_1.jpg'', ''/tmp/mastodon_media/1_2.mp4'']))) = 2"
  by (simp add: ref_publish_files ref_publish_repost published_embed_def embed_videos_def
      embed_images_def)

text \<open>
  Claim C4, amended. In \<^verbatim>\<open>part_000\<close> and in the second script of \<^verbatim>\<open>part_001\<close>, a
  published post whose media hold a video (a non-null \<open>videoBuffer\<close>, or a file ending
  in \<open>.mp4\<close>) carries exactly one video, the kept buffer or the first \<open>.mp4\<close> file,
  and no image. In the first script of \<^verbatim>\<open>part_001\<close> a published post with at least one
  file not ending in \<open>.mp4\<close> carries an images embed with exactly those files, in order,
  and no video; a published post whose files all end in \<open>.mp4\<close> carries neither a video
  nor an image but the placeholder external embed, whose thumb is the last file. In
  \<^verbatim>\<open>repost.js\<close> a published post with media carries an images embed with one entry
  for every file, in order, videos included with the encoding \<open>video/mp4\<close>, and no
  video.
\<close>

theorem embed_exclusivity_by_variant:
  "(\<forall>published. postToBlueSky_buffers e richText imgs (Some video) = Inr published \<longrightarrow>
      embed_videos (bp_embed published) = [\<lparr>blob_data = video, blob_mime = ''video/mp4''\<rparr>]
      \<and> embed_images (bp_embed published) = [])
   \<and> (\<forall>published videoPath others.
        postToBlueSky_rich e fs richText mediaFiles = Inr published
        \<and> filter (\<lambda>f. ends_with f ''.mp4'') mediaFiles = videoPath # others \<longrightarrow>
        (\<exists>videoData. fs videoPath = Some videoData
           \<and> embed_videos (bp_embed published)
               = [\<lparr>blob_data = videoData, blob_mime = ''video/mp4''\<rparr>])
        \<and> embed_images (bp_embed published) = [])
   \<and> (\<forall>published f.
        postToBlueSky_files e fs text mediaFiles = Inr published
        \<and> f \<in> set mediaFiles \<and> \<not> ends_with f ''.mp4'' \<longrightarrow>
        embed_videos (bp_embed published) = []
        \<and> length (embed_images (bp_embed published))
            = length (filter (\<lambda>f. \<not> ends_with f ''.mp4'') mediaFiles)
        \<and> bp_embed published
            = Some (EmbedImages
                (map (\<lambda>f. image_of \<lparr>blob_data = the (fs f), blob_mime = mime_of_repost f\<rparr>)
                   (filter (\<lambda>f. \<not> ends_with f ''.mp4'') mediaFiles)))
        \<and> (\<forall>g \<in> set mediaFiles. \<exists>d. fs g = Some d))
   \<and> (\<forall>published.
        postToBlueSky_files e fs text mediaFiles = Inr published
        \<and> mediaFiles \<noteq> [] \<and> filter (\<lambda>f. \<not> ends_with f ''.mp4'') mediaFiles = [] \<longrightarrow>
        bp_embed published
          = Some (EmbedExternal [] ''Video reposted from Mastodon'' []
              \<lparr>blob_data = the (fs (last mediaFiles)), blob_mime = ''video/mp4''\<rparr>)
        \<and> (\<exists>d. fs (last mediaFiles) = Some d)
        \<and> embed_videos (bp_embed published) = []
        \<and> embed_images (bp_embed published) = [])
   \<and> (\<forall>published.
        postToBlueSky_repost e fs text mediaFiles = Inr published \<and> mediaFiles \<noteq> [] \<longrightarrow>
        embed_videos (bp_embed published) = []
        \<and> length (embed_images (bp_embed published)) = length mediaFiles
        \<and> bp_embed published
            = Some (EmbedImages
                (map (\<lambda>f. image_of \<lparr>blob_data = the (fs f), blob_mime = mime_of_repost f\<rparr>)
                   mediaFiles))
        \<and> (\<forall>g \<in> set mediaFiles. \<exists>d. fs g = Some d))"
proof (intro conjI allI impI)
  fix published
  assume "postToBlueSky_buffers e richText imgs (Some video) = Inr published"
  from postToBlueSky_buffers_exclusive [OF this]
  show "embed_videos (bp_embed published) = [\<lparr>blob_data = video, blob_mime = ''video/mp4''\<rparr>]"
    and "embed_images (bp_embed published) = []"
    by (simp_all add: embed_videos_def embed_images_def)
next
  fix published videoPath others
  assume "postToBlueSky_rich e fs richText mediaFiles = Inr published
        \<and> filter (\<lambda>f. ends_with f ''.mp4'') mediaFiles = videoPath # others"
  then obtain videoData where "fs videoPath = Some videoData"
    and "bp_embed published
         = Some (EmbedMediaVideo \<lparr>blob_data = videoData, blob_mime = ''video/mp4''\<rparr>
                   ''Video reposted from Mastodon'')"
    using postToBlueSky_rich_exclusive [of e fs richText mediaFiles published videoPath others]
    by blast
  then show "\<exists>videoData. fs videoPath = Some videoData
           \<and> embed_videos (bp_embed published)
               = [\<lparr>blob_data = videoData, blob_mime = ''video/mp4''\<rparr>]"
    and "embed_images (bp_embed published) = []"
    by (simp_all add: embed_videos_def embed_images_def)
next
  fix published f
  assume a: "postToBlueSky_files e fs text mediaFiles = Inr published
        \<and> f \<in> set mediaFiles \<and> \<not> ends_with f ''.mp4''"
  then have ne: "filter (\<lambda>f. \<not> ends_with f ''.mp4'') mediaFiles \<noteq> []"
    by (auto simp add: filter_empty_conv)
  from a have p: "postToBlueSky_files e fs text mediaFiles = Inr published" by simp
  from postToBlueSky_files_embed [OF p] ne
  show emb: "bp_embed published
            = Some (EmbedImages
                (map (\<lambda>f. image_of \<lparr>blob_data = the (fs f), blob_mime = mime_of_repost f\<rparr>)
                   (filter (\<lambda>f. \<not> ends_with f ''.mp4'') mediaFiles)))"
    and "\<forall>g \<in> set mediaFiles. \<exists>d. fs g = Some d"
    by simp_all
  then show "embed_videos (bp_embed published) = []"
    and "length (embed_images (bp_embed published))
            = length (filter (\<lambda>f. \<not> ends_with f ''.mp4'') mediaFiles)"
    by (simp_all add: embed_videos_def embed_images_def)
next
  fix published
  assume a: "postToBlueSky_files e fs text mediaFiles = Inr published
        \<and> mediaFiles \<noteq> [] \<and> filter (\<lambda>f. \<not> ends_with f ''.mp4'') mediaFiles = []"
  then have p: "postToBlueSky_files e fs text mediaFiles = Inr published" by simp
  from postToBlueSky_files_embed [OF p] a
  show emb: "bp_embed published
          = Some (EmbedExternal [] ''Video reposted from Mastodon'' []
              \<lparr>blob_data = the (fs (last mediaFiles)), blob_mime = ''video/mp4''\<rparr>)"
    and "\<exists>d. fs (last mediaFiles) = Some d"
    by simp_all
  then show "embed_videos (bp_embed published) = []"
    and "embed_images (bp_embed published) = []"
    by (simp_all add: embed_videos_def embed_images_def)
next
  fix published
  assume a: "postToBlueSky_repost e fs text mediaFiles = Inr published \<and> mediaFiles \<noteq> []"
  then have p: "postToBlueSky_repost e fs text mediaFiles = Inr published" by simp
  from postToBlueSky_repost_embed [OF p] a
  show emb: "bp_embed published
            = Some (EmbedImages
                (map (\<lambda>f. image_of \<lparr>blob_data = the (fs f), blob_mime = mime_of_repost f\<rparr>)
                   mediaFiles))"
    and "\<forall>g \<in> set mediaFiles. \<exists>d. fs g = Some d"
    by simp_all
  then show "embed_videos (bp_embed published) = []"
    and "length (embed_images (bp_embed published)) = length mediaFiles"
    by (simp_all add: embed_videos_def embed_images_def)
qed

theorem embed_exclusivity_by_variant_witness:
  "published_embed (postToBlueSky_buffers ref_env ref_rich [[255, 216, 255]] (Some [0, 0, 0, 24]))
     = Some (EmbedMediaVideo \<lparr>blob_data = [0, 0, 0, 24], blob_mime = ''video/mp4''\<rparr>
               ''Video reposted from Mastodon'')
   \<and> published_embed (postToBlueSky_rich ref_env ref_files ref_rich
        [''/tmp/mastodon_media/1_1.jpg'', ''/tmp/mastodon_media/1_2.mp4''])
     = Some (EmbedMediaVideo \<lparr>blob_data = [0, 0, 0, 24], blob_mime = ''video/mp4''\<rparr>
               ''Video reposted from Mastodon'')
   \<and> ref_files ''/tmp/mastodon_media/1_2.mp4'' = Some [0, 0, 0, 24]
   \<and> published_embed (postToBlueSky_files ref_env ref_files (Some ''hi'')
        [''/tmp/mastodon_media/1_1.jpg'', ''/tmp/mastodon_media/1_2.mp4''])
     = Some (EmbedImages
         [image_of \<lparr>blob_data = [255, 216, 255], blob_mime = ''image/jpeg''\<rparr>])
   \<and> published_embed (postToBlueSky_files ref_env ref_files (Some ''hi'')
        [''/tmp/mastodon_media/1_2.mp4''])
     = Some (EmbedExternal [] ''Video reposted from Mastodon'' []
         \<lparr>blob_data = [0, 0, 0, 24], blob_mime = ''video/mp4''\<rparr>)
   \<and> published_embed (postToBlueSky_repost ref_env ref_files (Some ''hi'')
        [''/tmp/mastodon_media/1_1.jpg'', ''/tmp/mastodon_media/1_2.mp4''])
     = Some (EmbedImages
         [image_of \<lparr>blob_data = [255, 216, 255], blob_mime = ''image/jpeg''\<rparr>,
          image_of \<lparr>blob_data = [0, 0, 0, 24], blob_mime = ''video/mp4''\<rparr>])"
proof -
  have f: "ref_files ''/tmp/mastodon_media/1_2.mp4'' = Some [0, 0, 0, 24]"
    by (simp add: ref_files_def)
  have v: "filter (\<lambda>f. \<not> ends_with f ''.mp4'') [''/tmp/mastodon_media/1_2.mp4''] = []"
    by (simp add: ends_with_def)
  from embed_exclusivity_by_variant [of ref_env ref_rich "[[255, 216, 255]]" "[0, 0, 0, 24]"
      ref_files "[''/tmp/mastodon_media/1_1.jpg'', ''/tmp/mastodon_media/1_2.mp4'']"
      "Some ''hi''"]
    embed_exclusivity_by_variant [of ref_env ref_rich "[[255, 216, 255]]" "[0, 0, 0, 24]"
      ref_files "[''/tmp/mastodon_media/1_2.mp4'']" "Some ''hi''"] f v
  show ?thesis
    by (simp add: ref_publish_buffers ref_publish_rich ref_publish_files ref_publish_repost
        ref_publish_video_alone published_embed_def)
qed

text \<open>
  Claim C5, as stated, fails: no draft caps the gallery. Six image buffers handed to
  \<open>postToBlueSky\<close> of \<^verbatim>\<open>part_000\<close> are published as an images embed with six entries.
\<close>

theorem gallery_cap_counterexample:
  "length (embed_images (published_embed
     (postToBlueSky_buffers ref_env ref_rich ref_six None))) = 6"
  by (simp add: ref_publish_six published_embed_def embed_images_def)

text \<open>
  Claim C5, amended. For a post whose normalized media are images only, the published
  images embed holds every one of them, one entry each and in arrival order, however
  many there are: in \<^verbatim>\<open>part_000\<close> the entries are the image buffers, in the second script
  of \<^verbatim>\<open>part_001\<close> the contents of the media files.
\<close>

theorem gallery_keeps_every_image:
  "(\<forall>published. postToBlueSky_buffers e richText imgs None = Inr published \<and> imgs \<noteq> [] \<longrightarrow>
      embed_videos (bp_embed published) = []
      \<and> map (\<lambda>i. blob_data (entry_image i)) (embed_images (bp_embed published)) = imgs)
   \<and> (\<forall>published.
        postToBlueSky_rich e fs richText mediaFiles = Inr published \<and> mediaFiles \<noteq> []
        \<and> filter (\<lambda>f. ends_with f ''.mp4'') mediaFiles = [] \<longrightarrow>
        embed_videos (bp_embed published) = []
        \<and> map (\<lambda>i. Some (blob_data (entry_image i))) (embed_images (bp_embed published))
            = map fs mediaFiles)"
proof (intro conjI allI impI)
  fix published
  assume a: "postToBlueSky_buffers e richText imgs None = Inr published \<and> imgs \<noteq> []"
  with postToBlueSky_buffers_gallery [of e richText imgs published]
  have "bp_embed published = Some (EmbedImages
          (map (\<lambda>b. image_of \<lparr>blob_data = b, blob_mime = ''image/jpeg''\<rparr>) imgs))"
    by simp
  then show "embed_videos (bp_embed published) = []"
    and "map (\<lambda>i. blob_data (entry_image i)) (embed_images (bp_embed published)) = imgs"
    by (simp_all add: embed_videos_def embed_images_def image_of_def comp_def)
next
  fix published
  assume "postToBlueSky_rich e fs richText mediaFiles = Inr published \<and> mediaFiles \<noteq> []
        \<and> filter (\<lambda>f. ends_with f ''.mp4'') mediaFiles = []"
  then obtain entries where "bp_embed published = Some (EmbedImages entries)"
    and "map (\<lambda>i. Some (blob_data (entry_image i))) entries = map fs mediaFiles"
    using postToBlueSky_rich_gallery [of e fs richText mediaFiles published] by blast
  then show "embed_videos (bp_embed published) = []"
    and "map (\<lambda>i. Some (blob_data (entry_image i))) (embed_images (bp_embed published))
            = map fs mediaFiles"
    by (simp_all add: embed_videos_def embed_images_def)
qed

theorem gallery_keeps_every_image_witness:
  "map (\<lambda>i. blob_data (entry_image i)) (embed_images (published_embed
     (postToBlueSky_buffers ref_env ref_rich ref_six None))) = ref_six
   \<and> length ref_six = 6
   \<and> published_embed
        (postToBlueSky_rich ref_env ref_files ref_rich [''/tmp/mastodon_media/1_1.jpg''])
     = Some (EmbedImages
         [image_of \<lparr>blob_data = [255, 216, 255], blob_mime = ''image/jpeg''\<rparr>])
   \<and> ref_files ''/tmp/mastodon_media/1_1.jpg'' = Some [255, 216, 255]"
proof -
  have n: "ref_six \<noteq> []" "length ref_six = 6" by (simp_all add: ref_six_def)
  have f: "ref_files ''/tmp/mastodon_media/1_1.jpg'' = Some [255, 216, 255]"
    by (simp add: ref_files_def)
  have v: "filter (\<lambda>f. ends_with f ''.mp4'') [''/tmp/mastodon_media/1_1.jpg''] = []"
    by (simp add: ends_with_def)
  from gallery_keeps_every_image [of ref_env ref_rich ref_six ref_files
      "[''/tmp/mastodon_media/1_1.jpg'']"] n f v
  show ?thesis
    by (simp add: ref_publish_six ref_publish_gallery_rich published_embed_def)
qed

section \<open>Properties of the runs\<close>

subsection \<open>The loop body of part_000\<close>

lemma process_post_buffers_feed_append:
  "feed (process_post_buffers e w post) = feed w @ published_by_buffers e post"
  by (simp add: published_by_buffers_def process_post_buffers_def mark_posted_def
      savePostedIds_def start_def split: sum.splits option.splits)

lemma process_post_buffers_ids_append:
  "postedIds (process_post_buffers e w post) = postedIds w @ marked_by_buffers e post"
  by (simp add: marked_by_buffers_def process_post_buffers_def mark_posted_def
      savePostedIds_def start_def split: sum.splits option.splits)

lemma foldl_buffers_feed:
  "feed (foldl (process_post_buffers e) w ps)
   = feed w @ concat (map (published_by_buffers e) ps)"
  by (induction ps arbitrary: w) (simp_all add: process_post_buffers_feed_append)

lemma foldl_buffers_ids:
  "postedIds (foldl (process_post_buffers e) w ps)
   = postedIds w @ concat (map (marked_by_buffers e) ps)"
  by (induction ps arbitrary: w) (simp_all add: process_post_buffers_ids_append)

subsection \<open>The loop body of repost.js\<close>

lemma download_step_unfold:
  "download_step e post (fs, files) media =
     (case fetch_media e (media_url media) of
        Inl err \<Rightarrow> (fs, files)
      | Inr body \<Rightarrow> (fs(temp_path e (media_filename e post media) \<mapsto> body),
                     files @ [temp_path e (media_filename e post media)]))"
  by (simp add: download_step_def downloadMedia_def split: sum.splits)

lemma download_from_empty:
  "\<exists>g l. set l \<subseteq> dom g
     \<and> (\<forall>fs files. foldl (download_step e post) (fs, files) ms = (fs ++ g, files @ l))"
proof (induction ms rule: rev_induct)
  case Nil
  have "set [] \<subseteq> dom (Map.empty :: files)
     \<and> (\<forall>fs files. foldl (download_step e post) (fs, files) []
           = (fs ++ Map.empty, files @ []))"
    by simp
  then show ?case by blast
next
  case (snoc m ms)
  then obtain g l where b: "set l \<subseteq> dom g"
    and a: "\<And>fs files. foldl (download_step e post) (fs, files) ms = (fs ++ g, files @ l)"
    by blast
  let ?x = "temp_path e (media_filename e post m)"
  show ?case
  proof (cases "fetch_media e (media_url m)")
    case (Inl err)
    then have "\<forall>fs files. foldl (download_step e post) (fs, files) (ms @ [m])
                 = (fs ++ g, files @ l)"
      by (simp add: a download_step_unfold)
    with b show ?thesis by blast
  next
    case (Inr body)
    then have "\<forall>fs files. foldl (download_step e post) (fs, files) (ms @ [m])
                 = (fs ++ g(?x \<mapsto> body), files @ (l @ [?x]))"
      by (simp add: a download_step_unfold)
    moreover from b have "set (l @ [?x]) \<subseteq> dom (g(?x \<mapsto> body))"
      by auto
    ultimately show ?thesis by blast
  qed
qed

lemma upload_repost_map_add:
  "set files \<subseteq> dom g \<Longrightarrow> upload_repost e (fs ++ g) files acc = upload_repost e g files acc"
proof (induction files arbitrary: acc)
  case Nil
  then show ?case by simp
next
  case (Cons f files)
  then have "(fs ++ g) f = g f" by (auto simp add: map_add_dom_app_simps)
  with Cons show ?case by (simp split: option.splits sum.splits)
qed

lemma postToBlueSky_repost_map_add:
  "set files \<subseteq> dom g \<Longrightarrow>
   postToBlueSky_repost e (fs ++ g) text files = postToBlueSky_repost e g text files"
  by (simp add: postToBlueSky_repost_def upload_repost_map_add)

lemma process_post_repost_publish:
  "postToBlueSky_repost e (fst (foldl (download_step e post) (fs, []) (media_attachments post)))
     body (snd (foldl (download_step e post) (fs, []) (media_attachments post)))
   = postToBlueSky_repost e
       (fst (foldl (download_step e post) (Map.empty, []) (media_attachments post)))
       body (snd (foldl (download_step e post) (Map.empty, []) (media_attachments post)))"
proof -
  from download_from_empty [of e post "media_attachments post"]
  obtain g l where b: "set l \<subseteq> dom g"
    and a: "\<And>fs files. foldl (download_step e post) (fs, files) (media_attachments post)
              = (fs ++ g, files @ l)"
    by blast
  show ?thesis by (simp add: a postToBlueSky_repost_map_add [OF b])
qed

lemma process_post_repost_feed_append:
  "feed (process_post_repost e w post) = feed w @ published_by_repost e post"
  using process_post_repost_publish [of e post "temp_files w" "post_body post"]
  by (simp add: published_by_repost_def process_post_repost_def savePostedIds_def
      start_def Let_def split: sum.splits option.splits)

lemma process_post_repost_ids_append:
  "postedIds (process_post_repost e w post) = postedIds w @ marked_by_repost e post"
  using process_post_repost_publish [of e post "temp_files w" "post_body post"]
  by (simp add: marked_by_repost_def process_post_repost_def savePostedIds_def
      start_def Let_def split: sum.splits option.splits)

lemma foldl_repost_feed:
  "feed (foldl (process_post_repost e) w ps)
   = feed w @ concat (map (published_by_repost e) ps)"
  by (induction ps arbitrary: w) (simp_all add: process_post_repost_feed_append)

lemma foldl_repost_ids:
  "postedIds (foldl (process_post_repost e) w ps)
   = postedIds w @ concat (map (marked_by_repost e) ps)"
  by (induction ps arbitrary: w) (simp_all add: process_post_repost_ids_append)

subsection \<open>The order of publication\<close>

lemma postToBlueSky_buffers_text:
  "postToBlueSky_buffers e richText imgs vid = Inr r \<Longrightarrow> bp_text r = Some (rt_text richText)"
  by (auto simp add: postToBlueSky_buffers_def agent_post_def split: sum.splits option.splits)

lemma postToBlueSky_repost_text:
  "postToBlueSky_repost e fs body files = Inr r \<Longrightarrow> bp_text r = body"
  by (auto simp add: postToBlueSky_repost_def agent_post_def split: sum.splits option.splits)

lemma published_by_buffers_cases:
  "published_by_buffers e post = []
   \<or> (\<exists>rt r. published_by_buffers e post = [r]
         \<and> mastodonToRichText e (or_empty (post_body post)) = Inr (Some rt)
         \<and> bp_text r = Some (rt_text rt))"
proof (cases "mastodonToRichText e (or_empty (post_body post))")
  case (Inl err)
  then show ?thesis
    by (simp add: published_by_buffers_def process_post_buffers_def start_def)
next
  case (Inr r)
  show ?thesis
  proof (cases r)
    case None
    with Inr show ?thesis
      by (simp add: published_by_buffers_def process_post_buffers_def start_def)
  next
    case (Some richText)
    show ?thesis
    proof (cases "postToBlueSky_buffers e richText (imageBuffers (collect_media e post))
                    (videoBuffer (collect_media e post))")
      case (Inl err)
      with Inr Some show ?thesis
        by (simp add: published_by_buffers_def process_post_buffers_def start_def
            mark_posted_def savePostedIds_def split: option.splits)
    next
      case pub: (Inr published)
      from postToBlueSky_buffers_text [OF pub] Inr Some pub show ?thesis
        by (simp add: published_by_buffers_def process_post_buffers_def start_def
            mark_posted_def savePostedIds_def split: option.splits)
    qed
  qed
qed

lemma published_by_repost_cases:
  "published_by_repost e post = []
   \<or> (\<exists>r. published_by_repost e post = [r] \<and> bp_text r = post_body post)"
proof (cases "postToBlueSky_repost e
    (fst (foldl (download_step e post) (Map.empty, []) (media_attachments post)))
    (post_body post)
    (snd (foldl (download_step e post) (Map.empty, []) (media_attachments post)))")
  case (Inl err)
  then show ?thesis
    by (simp add: published_by_repost_def process_post_repost_def Let_def start_def)
next
  case pub: (Inr published)
  from postToBlueSky_repost_text [OF pub] pub show ?thesis
    by (simp add: published_by_repost_def process_post_repost_def Let_def start_def
        savePostedIds_def split: option.splits)
qed

lemma main_buffers_run:
  "fetch_posts e = Inr posts \<Longrightarrow> login_error e = None \<Longrightarrow>
   main_buffers e w = Inr (foldl (process_post_buffers e) w (candidates (postedIds w) posts))"
  by (simp add: main_buffers_def candidates_def Let_def)

lemma main_repost_run:
  "fetch_posts e = Inr posts \<Longrightarrow> login_error e = None \<Longrightarrow>
   main_repost e w = Inr (foldl (process_post_repost e) w (candidates (postedIds w) posts))"
  by (simp add: main_repost_def candidates_def Let_def)

lemma ref_timeline_fields:
  "fetch_posts ref_env_timeline = Inr ref_timeline"
  "login_error ref_env_timeline = None"
  "clean_text ref_env_timeline = (\<lambda>html. Inr html)"
  "detect_facets ref_env_timeline = (\<lambda>text. Inr [])"
  "upload_error ref_env_timeline = (\<lambda>data encoding. None)"
  "post_error ref_env_timeline = (\<lambda>p. None)"
  "ledger_write_error ref_env_timeline = (\<lambda>ids. None)"
  by (simp_all add: ref_env_timeline_def ref_env_def)

lemma ref_timeline_buffers:
  "main_buffers ref_env_timeline (start [] [] Map.empty)
   = Inr \<lparr>postedIds = [''1'', ''2'', ''3''], ledger_file = [''1'', ''2'', ''3''],
          feed = [\<lparr>bp_text = Some ''T1'', bp_facets = Some [], bp_embed = None\<rparr>,
                  \<lparr>bp_text = Some ''T2'', bp_facets = Some [], bp_embed = None\<rparr>,
                  \<lparr>bp_text = Some ''T3'', bp_facets = Some [], bp_embed = None\<rparr>],
          temp_files = Map.empty\<rparr>"
  by (simp add: main_buffers_def ref_timeline_fields ref_timeline_def ref_post_def
      start_def process_post_buffers_def mastodonToRichText_def post_body_def js_or_def
      truthy_def or_empty_def BLUESKY_MAX_CHARS_def collect_media_def
      postToBlueSky_buffers_def agent_post_def mark_posted_def savePostedIds_def)

lemma ref_timeline_repost:
  "main_repost ref_env_timeline (start [] [] Map.empty)
   = Inr \<lparr>postedIds = [''1'', ''2'', ''3''], ledger_file = [''1'', ''2'', ''3''],
          feed = [\<lparr>bp_text = Some ''T1'', bp_facets = None, bp_embed = None\<rparr>,
                  \<lparr>bp_text = Some ''T2'', bp_facets = None, bp_embed = None\<rparr>,
                  \<lparr>bp_text = Some ''T3'', bp_facets = None, bp_embed = None\<rparr>],
          temp_files = Map.empty\<rparr>"
  by (simp add: main_repost_def ref_timeline_fields ref_timeline_def ref_post_def
      start_def process_post_repost_def post_body_def js_or_def truthy_def Let_def
      postToBlueSky_repost_def agent_post_def savePostedIds_def)

text \<open>
  Claim C8. When the fetch and the login succeed, the run of \<^verbatim>\<open>part_000\<close> and the run
  of \<^verbatim>\<open>repost.js\<close> append to the feed what the loop body publishes for each candidate,
  candidate after candidate in the reverse of the fetched order (the fetched posts that
  the ledger does not hold, oldest first). For each candidate that is nothing or one post
  carrying the text of that candidate.
\<close>

theorem publish_order_oldest_first:
  "fetch_posts e = Inr posts \<and> login_error e = None \<longrightarrow>
     (\<exists>w'. main_buffers e w = Inr w'
        \<and> feed w' = feed w @ concat (map (published_by_buffers e)
                                   (rev (filter (\<lambda>post. post_id post \<notin> set (postedIds w)) posts))))
     \<and> (\<exists>w'. main_repost e w = Inr w'
        \<and> feed w' = feed w @ concat (map (published_by_repost e)
                                   (rev (filter (\<lambda>post. post_id post \<notin> set (postedIds w)) posts))))
     \<and> (\<forall>post. published_by_buffers e post = []
          \<or> (\<exists>rt r. published_by_buffers e post = [r]
                \<and> mastodonToRichText e (or_empty (post_body post)) = Inr (Some rt)
                \<and> bp_text r = Some (rt_text rt)))
     \<and> (\<forall>post. published_by_repost e post = []
          \<or> (\<exists>r. published_by_repost e post = [r] \<and> bp_text r = post_body post))"
proof (intro impI conjI allI)
  assume a: "fetch_posts e = Inr posts \<and> login_error e = None"
  then show "\<exists>w'. main_buffers e w = Inr w'
        \<and> feed w' = feed w @ concat (map (published_by_buffers e)
                                   (rev (filter (\<lambda>post. post_id post \<notin> set (postedIds w)) posts)))"
    by (simp add: main_buffers_run foldl_buffers_feed candidates_def)
  from a show "\<exists>w'. main_repost e w = Inr w'
        \<and> feed w' = feed w @ concat (map (published_by_repost e)
                                   (rev (filter (\<lambda>post. post_id post \<notin> set (postedIds w)) posts)))"
    by (simp add: main_repost_run foldl_repost_feed candidates_def)
next
  fix post
  show "published_by_buffers e post = []
          \<or> (\<exists>rt r. published_by_buffers e post = [r]
                \<and> mastodonToRichText e (or_empty (post_body post)) = Inr (Some rt)
                \<and> bp_text r = Some (rt_text rt))"
    by (rule published_by_buffers_cases)
next
  fix post
  show "published_by_repost e post = []
          \<or> (\<exists>r. published_by_repost e post = [r] \<and> bp_text r = post_body post)"
    by (rule published_by_repost_cases)
qed

theorem publish_order_oldest_first_witness:
  "map post_id ref_timeline = [''3'', ''2'', ''1'']
   \<and> main_buffers ref_env_timeline (start [] [] Map.empty)
     = Inr \<lparr>postedIds = [''1'', ''2'', ''3''], ledger_file = [''1'', ''2'', ''3''],
          feed = [\<lparr>bp_text = Some ''T1'', bp_facets = Some [], bp_embed = None\<rparr>,
                  \<lparr>bp_text = Some ''T2'', bp_facets = Some [], bp_embed = None\<rparr>,
                  \<lparr>bp_text = Some ''T3'', bp_facets = Some [], bp_embed = None\<rparr>],
          temp_files = Map.empty\<rparr>
   \<and> main_repost ref_env_timeline (start [] [] Map.empty)
     = Inr \<lparr>postedIds = [''1'', ''2'', ''3''], ledger_file = [''1'', ''2'', ''3''],
          feed = [\<lparr>bp_text = Some ''T1'', bp_facets = None, bp_embed = None\<rparr>,
                  \<lparr>bp_text = Some ''T2'', bp_facets = None, bp_embed = None\<rparr>,
                  \<lparr>bp_text = Some ''T3'', bp_facets = None, bp_embed = None\<rparr>],
          temp_files = Map.empty\<rparr>"
proof -
  have ids: "map post_id ref_timeline = [''3'', ''2'', ''1'']"
    by (simp add: ref_timeline_def ref_post_def)
  from publish_order_oldest_first [of ref_env_timeline ref_timeline "start [] [] Map.empty"]
    ids ref_timeline_buffers ref_timeline_repost
  show ?thesis by (simp add: ref_timeline_fields)
qed


subsection \<open>Publish failures\<close>

lemma start_fields:
  "postedIds (start ledger published fs) = ledger"
  "ledger_file (start ledger published fs) = ledger"
  "feed (start ledger published fs) = published"
  "temp_files (start ledger published fs) = fs"
  by (simp_all add: start_def)

lemma process_post_buffers_publish_fails:
  assumes "mastodonToRichText e (or_empty (post_body post)) = Inr (Some rt)"
    and "rt_text rt \<noteq> []" and "length (rt_text rt) \<le> BLUESKY_MAX_CHARS"
    and "\<not> skipDueToVideo (collect_media e post)"
    and "postToBlueSky_buffers e rt (imageBuffers (collect_media e post))
           (videoBuffer (collect_media e post)) = Inl err"
  shows "process_post_buffers e w post = w"
  using assms by (simp add: process_post_buffers_def)

lemma process_post_repost_publish_fails:
  assumes "postToBlueSky_repost e
             (fst (foldl (download_step e post) (temp_files w, []) (media_attachments post)))
             (post_body post)
             (snd (foldl (download_step e post) (temp_files w, []) (media_attachments post)))
           = Inl err"
  shows "process_post_repost e w post
         = w\<lparr>temp_files :=
               fst (foldl (download_step e post) (temp_files w, []) (media_attachments post))\<rparr>"
  using assms by (simp add: process_post_repost_def Let_def)

lemma ref_rejecting_fields:
  "fetch_posts ref_env_rejecting = Inr ref_timeline"
  "login_error ref_env_rejecting = None"
  "clean_text ref_env_rejecting = (\<lambda>html. Inr html)"
  "detect_facets ref_env_rejecting = (\<lambda>text. Inr [])"
  "upload_error ref_env_rejecting = (\<lambda>data encoding. None)"
  "post_error ref_env_rejecting = (\<lambda>p. Some (Error ''rejected''))"
  "ledger_write_error ref_env_rejecting = (\<lambda>ids. None)"
  by (simp_all add: ref_env_rejecting_def ref_env_timeline_def ref_env_def)

lemma ref_rejecting_buffers:
  "main_buffers ref_env_rejecting (start [] [] Map.empty) = Inr (start [] [] Map.empty)"
  by (simp add: main_buffers_def ref_rejecting_fields ref_timeline_def ref_post_def
      start_def process_post_buffers_def mastodonToRichText_def post_body_def js_or_def
      truthy_def or_empty_def BLUESKY_MAX_CHARS_def collect_media_def
      postToBlueSky_buffers_def agent_post_def)


lemma published_by_buffers_publish_fails:
  assumes "mastodonToRichText e (or_empty (post_body post)) = Inr (Some rt)"
    and "rt_text rt \<noteq> []" and "length (rt_text rt) \<le> BLUESKY_MAX_CHARS"
    and "\<not> skipDueToVideo (collect_media e post)"
    and "postToBlueSky_buffers e rt (imageBuffers (collect_media e post))
           (videoBuffer (collect_media e post)) = Inl err"
  shows "published_by_buffers e post = []" and "marked_by_buffers e post = []"
  using process_post_buffers_publish_fails [OF assms, of "start [] [] Map.empty"]
  by (simp_all add: published_by_buffers_def marked_by_buffers_def start_fields)

lemma published_by_repost_publish_fails:
  assumes "postToBlueSky_repost e
             (fst (foldl (download_step e post) (temp_files (w :: world), [])
                     (media_attachments post)))
             (post_body post)
             (snd (foldl (download_step e post) (temp_files w, []) (media_attachments post)))
           = Inl err"
  shows "published_by_repost e post = []" and "marked_by_repost e post = []"
proof -
  note u = process_post_repost_publish_fails [OF assms]
  from process_post_repost_feed_append [of e w post] u
  show "published_by_repost e post = []" by simp
  from process_post_repost_ids_append [of e w post] u
  show "marked_by_repost e post = []" by simp
qed

lemma main_buffers_skips_failed:
  assumes f: "fetch_posts e = Inr posts" and l: "login_error e = None"
    and c: "rev (filter (\<lambda>p. post_id p \<notin> set (postedIds w)) posts) = before @ post # later"
    and r: "mastodonToRichText e (or_empty (post_body post)) = Inr (Some rt)"
    and t: "rt_text rt \<noteq> []" "length (rt_text rt) \<le> BLUESKY_MAX_CHARS"
    and s: "\<not> skipDueToVideo (collect_media e post)"
    and p: "postToBlueSky_buffers e rt (imageBuffers (collect_media e post))
           (videoBuffer (collect_media e post)) = Inl err"
  shows "main_buffers e w
         = Inr (foldl (process_post_buffers e) (foldl (process_post_buffers e) w before) later)"
    and "feed (foldl (process_post_buffers e) (foldl (process_post_buffers e) w before) later)
         = feed w @ concat (map (published_by_buffers e) before)
             @ concat (map (published_by_buffers e) later)"
    and "postedIds (foldl (process_post_buffers e) (foldl (process_post_buffers e) w before) later)
         = postedIds w @ concat (map (marked_by_buffers e) before)
             @ concat (map (marked_by_buffers e) later)"
proof -
  have "process_post_buffers e (foldl (process_post_buffers e) w before) post
        = foldl (process_post_buffers e) w before"
    using r t s p by (rule process_post_buffers_publish_fails)
  with main_buffers_run [OF f l, of w] c
  show "main_buffers e w
         = Inr (foldl (process_post_buffers e) (foldl (process_post_buffers e) w before) later)"
    by (simp add: candidates_def)
  show "feed (foldl (process_post_buffers e) (foldl (process_post_buffers e) w before) later)
         = feed w @ concat (map (published_by_buffers e) before)
             @ concat (map (published_by_buffers e) later)"
    by (simp add: foldl_buffers_feed)
  show "postedIds (foldl (process_post_buffers e) (foldl (process_post_buffers e) w before) later)
         = postedIds w @ concat (map (marked_by_buffers e) before)
             @ concat (map (marked_by_buffers e) later)"
    by (simp add: foldl_buffers_ids)
qed

lemma main_repost_skips_failed:
  assumes f: "fetch_posts e = Inr posts" and l: "login_error e = None"
    and c: "rev (filter (\<lambda>p. post_id p \<notin> set (postedIds w)) posts) = before @ post # later"
    and p: "postToBlueSky_repost e
        (fst (foldl (download_step e post)
                (temp_files (foldl (process_post_repost e) w before), [])
                (media_attachments post)))
        (post_body post)
        (snd (foldl (download_step e post)
                (temp_files (foldl (process_post_repost e) w before), [])
                (media_attachments post)))
        = Inl err"
  shows "main_repost e w
         = Inr (foldl (process_post_repost e)
                  ((foldl (process_post_repost e) w before)
                     \<lparr>temp_files :=
                        fst (foldl (download_step e post)
                               (temp_files (foldl (process_post_repost e) w before), [])
                               (media_attachments post))\<rparr>)
                  later)"
    and "feed (foldl (process_post_repost e)
                  ((foldl (process_post_repost e) w before)
                     \<lparr>temp_files :=
                        fst (foldl (download_step e post)
                               (temp_files (foldl (process_post_repost e) w before), [])
                               (media_attachments post))\<rparr>)
                  later)
         = feed w @ concat (map (published_by_repost e) before)
             @ concat (map (published_by_repost e) later)"
    and "postedIds (foldl (process_post_repost e)
                  ((foldl (process_post_repost e) w before)
                     \<lparr>temp_files :=
                        fst (foldl (download_step e post)
                               (temp_files (foldl (process_post_repost e) w before), [])
                               (media_attachments post))\<rparr>)
                  later)
         = postedIds w @ concat (map (marked_by_repost e) before)
             @ concat (map (marked_by_repost e) later)"
proof -
  note u = process_post_repost_publish_fails [OF p]
  with main_repost_run [OF f l, of w] c
  show "main_repost e w
         = Inr (foldl (process_post_repost e)
                  ((foldl (process_post_repost e) w before)
                     \<lparr>temp_files :=
                        fst (foldl (download_step e post)
                               (temp_files (foldl (process_post_repost e) w before), [])
                               (media_attachments post))\<rparr>)
                  later)"
    by (simp add: candidates_def)
  show "feed (foldl (process_post_repost e)
                  ((foldl (process_post_repost e) w before)
                     \<lparr>temp_files :=
                        fst (foldl (download_step e post)
                               (temp_files (foldl (process_post_repost e) w before), [])
                               (media_attachments post))\<rparr>)
                  later)
         = feed w @ concat (map (published_by_repost e) before)
             @ concat (map (published_by_repost e) later)"
    by (simp add: foldl_repost_feed)
  show "postedIds (foldl (process_post_repost e)
                  ((foldl (process_post_repost e) w before)
                     \<lparr>temp_files :=
                        fst (foldl (download_step e post)
                               (temp_files (foldl (process_post_repost e) w before), [])
                               (media_attachments post))\<rparr>)
                  later)
         = postedIds w @ concat (map (marked_by_repost e) before)
             @ concat (map (marked_by_repost e) later)"
    by (simp add: foldl_repost_ids)
qed

lemma ref_flaky_fields:
  "fetch_posts ref_env_flaky = Inr ref_timeline"
  "login_error ref_env_flaky = None"
  "clean_text ref_env_flaky = (\<lambda>html. Inr html)"
  "detect_facets ref_env_flaky = (\<lambda>text. Inr [])"
  "upload_error ref_env_flaky = (\<lambda>data encoding. None)"
  "post_error ref_env_flaky
     = (\<lambda>p. if bp_text p = Some ''T2'' then Some (Error ''rejected'') else None)"
  "ledger_write_error ref_env_flaky = (\<lambda>ids. None)"
  by (simp_all add: ref_env_flaky_def ref_env_timeline_def ref_env_def)

lemma ref_flaky_buffers:
  "main_buffers ref_env_flaky (start [] [] Map.empty)
   = Inr \<lparr>postedIds = [''1'', ''3''], ledger_file = [''1'', ''3''],
          feed = [\<lparr>bp_text = Some ''T1'', bp_facets = Some [], bp_embed = None\<rparr>,
                  \<lparr>bp_text = Some ''T3'', bp_facets = Some [], bp_embed = None\<rparr>],
          temp_files = Map.empty\<rparr>"
  by (simp add: main_buffers_def ref_flaky_fields ref_timeline_def ref_post_def
      start_def process_post_buffers_def mastodonToRichText_def post_body_def js_or_def
      truthy_def or_empty_def BLUESKY_MAX_CHARS_def collect_media_def
      postToBlueSky_buffers_def agent_post_def mark_posted_def savePostedIds_def)

lemma ref_flaky_repost:
  "main_repost ref_env_flaky (start [] [] Map.empty)
   = Inr \<lparr>postedIds = [''1'', ''3''], ledger_file = [''1'', ''3''],
          feed = [\<lparr>bp_text = Some ''T1'', bp_facets = None, bp_embed = None\<rparr>,
                  \<lparr>bp_text = Some ''T3'', bp_facets = None, bp_embed = None\<rparr>],
          temp_files = Map.empty\<rparr>"
  by (simp add: main_repost_def ref_flaky_fields ref_timeline_def ref_post_def
      start_def process_post_repost_def post_body_def js_or_def truthy_def Let_def
      postToBlueSky_repost_def agent_post_def savePostedIds_def)

lemma ref_flaky_candidates:
  "rev (filter (\<lambda>p. post_id p \<notin> set (postedIds (start [] [] Map.empty))) ref_timeline)
   = [ref_post ''1'' ''T1'' []] @ ref_post ''2'' ''T2'' [] # [ref_post ''3'' ''T3'' []]"
  by (simp add: ref_timeline_def start_fields)

lemma ref_flaky_post2:
  "mastodonToRichText ref_env_flaky (or_empty (post_body (ref_post ''2'' ''T2'' [])))
     = Inr (Some \<lparr>rt_text = ''T2'', rt_facets = []\<rparr>)"
  "collect_media ref_env_flaky (ref_post ''2'' ''T2'' [])
     = \<lparr>imageBuffers = [], videoBuffer = None, skipDueToVideo = False\<rparr>"
  "postToBlueSky_buffers ref_env_flaky \<lparr>rt_text = ''T2'', rt_facets = []\<rparr> [] None
     = Inl (Error ''rejected'')"
  "post_body (ref_post ''2'' ''T2'' []) = Some ''T2''"
  "media_attachments (ref_post ''2'' ''T2'' []) = []"
  "postToBlueSky_repost ref_env_flaky Map.empty (Some ''T2'') [] = Inl (Error ''rejected'')"
  by (simp_all add: mastodonToRichText_def post_body_def js_or_def truthy_def or_empty_def
      ref_post_def ref_flaky_fields collect_media_def postToBlueSky_buffers_def
      postToBlueSky_repost_def agent_post_def)

lemma ref_flaky_before:
  "temp_files (foldl (process_post_repost ref_env_flaky) (start [] [] Map.empty)
     [ref_post ''1'' ''T1'' []]) = Map.empty"
  by (simp add: ref_flaky_fields ref_post_def start_def process_post_repost_def
      post_body_def js_or_def truthy_def Let_def postToBlueSky_repost_def agent_post_def
      savePostedIds_def)

text \<open>
  Claim C7. In \<^verbatim>\<open>part_000\<close> and in \<^verbatim>\<open>repost.js\<close>, when \<open>postToBlueSky\<close> throws for a
  candidate, the loop body leaves \<open>postedIds\<close>, the ledger file and the feed as they
  were (in \<^verbatim>\<open>repost.js\<close> only the downloaded temp files remain), and the loop goes on
  with the next candidate from that state. For the run: when the fetch and the login
  succeed and the publish of one candidate fails, the run ends normally in the state
  that the loop reaches by processing the candidates before it and then, from the
  unchanged ledger and feed, the candidates after it; the feed and \<open>postedIds\<close> grow by
  what those other candidates publish and mark, and by nothing for the failed one.
  Whatever the destination answers, a run whose fetch and login succeed ends normally.
\<close>

theorem publish_failure_is_per_post:
  "(\<forall>rt err.
      mastodonToRichText e (or_empty (post_body post)) = Inr (Some rt)
      \<and> rt_text rt \<noteq> [] \<and> length (rt_text rt) \<le> BLUESKY_MAX_CHARS
      \<and> \<not> skipDueToVideo (collect_media e post)
      \<and> postToBlueSky_buffers e rt (imageBuffers (collect_media e post))
           (videoBuffer (collect_media e post)) = Inl err \<longrightarrow>
      process_post_buffers e w post = w
      \<and> foldl (process_post_buffers e) w (post # rest) = foldl (process_post_buffers e) w rest
      \<and> (\<forall>posts before later.
            fetch_posts e = Inr posts \<and> login_error e = None
            \<and> rev (filter (\<lambda>p. post_id p \<notin> set (postedIds w)) posts) = before @ post # later
            \<longrightarrow>
            (\<exists>w'. main_buffers e w = Inr w'
               \<and> w' = foldl (process_post_buffers e)
                        (foldl (process_post_buffers e) w before) later
               \<and> feed w' = feed w @ concat (map (published_by_buffers e) before)
                              @ concat (map (published_by_buffers e) later)
               \<and> postedIds w' = postedIds w @ concat (map (marked_by_buffers e) before)
                                   @ concat (map (marked_by_buffers e) later))))
   \<and> (\<forall>err.
      postToBlueSky_repost e
        (fst (foldl (download_step e post) (temp_files w, []) (media_attachments post)))
        (post_body post)
        (snd (foldl (download_step e post) (temp_files w, []) (media_attachments post)))
        = Inl err \<longrightarrow>
      postedIds (process_post_repost e w post) = postedIds w
      \<and> ledger_file (process_post_repost e w post) = ledger_file w
      \<and> feed (process_post_repost e w post) = feed w
      \<and> foldl (process_post_repost e) w (post # rest)
          = foldl (process_post_repost e)
              (w\<lparr>temp_files :=
                 fst (foldl (download_step e post) (temp_files w, []) (media_attachments post))\<rparr>)
              rest)
   \<and> (\<forall>posts before later err.
        fetch_posts e = Inr posts \<and> login_error e = None
        \<and> rev (filter (\<lambda>p. post_id p \<notin> set (postedIds w)) posts) = before @ post # later
        \<and> postToBlueSky_repost e
            (fst (foldl (download_step e post)
                    (temp_files (foldl (process_post_repost e) w before), [])
                    (media_attachments post)))
            (post_body post)
            (snd (foldl (download_step e post)
                    (temp_files (foldl (process_post_repost e) w before), [])
                    (media_attachments post)))
            = Inl err \<longrightarrow>
        (\<exists>w'. main_repost e w = Inr w'
           \<and> w' = foldl (process_post_repost e)
                    ((foldl (process_post_repost e) w before)
                       \<lparr>temp_files :=
                          fst (foldl (download_step e post)
                                 (temp_files (foldl (process_post_repost e) w before), [])
                                 (media_attachments post))\<rparr>)
                    later
           \<and> feed w' = feed w @ concat (map (published_by_repost e) before)
                          @ concat (map (published_by_repost e) later)
           \<and> postedIds w' = postedIds w @ concat (map (marked_by_repost e) before)
                               @ concat (map (marked_by_repost e) later)))
   \<and> (\<forall>posts. fetch_posts e = Inr posts \<and> login_error e = None \<longrightarrow>
        (\<exists>w'. main_buffers e w = Inr w') \<and> (\<exists>w'. main_repost e w = Inr w'))"
proof (intro conjI allI impI)
  fix rt err
  assume a: "mastodonToRichText e (or_empty (post_body post)) = Inr (Some rt)
      \<and> rt_text rt \<noteq> [] \<and> length (rt_text rt) \<le> BLUESKY_MAX_CHARS
      \<and> \<not> skipDueToVideo (collect_media e post)
      \<and> postToBlueSky_buffers e rt (imageBuffers (collect_media e post))
           (videoBuffer (collect_media e post)) = Inl err"
  then show u: "process_post_buffers e w post = w"
    using process_post_buffers_publish_fails [of e post rt err w] by blast
  then show "foldl (process_post_buffers e) w (post # rest)
             = foldl (process_post_buffers e) w rest"
    by simp
  fix posts before later
  assume b: "fetch_posts e = Inr posts \<and> login_error e = None
            \<and> rev (filter (\<lambda>p. post_id p \<notin> set (postedIds w)) posts) = before @ post # later"
  from a b main_buffers_skips_failed [of e posts w before post later rt err]
  show "\<exists>w'. main_buffers e w = Inr w'
               \<and> w' = foldl (process_post_buffers e)
                        (foldl (process_post_buffers e) w before) later
               \<and> feed w' = feed w @ concat (map (published_by_buffers e) before)
                              @ concat (map (published_by_buffers e) later)
               \<and> postedIds w' = postedIds w @ concat (map (marked_by_buffers e) before)
                                   @ concat (map (marked_by_buffers e) later)"
    by simp
next
  fix err
  assume a: "postToBlueSky_repost e
        (fst (foldl (download_step e post) (temp_files w, []) (media_attachments post)))
        (post_body post)
        (snd (foldl (download_step e post) (temp_files w, []) (media_attachments post)))
        = Inl err"
  note u = process_post_repost_publish_fails [OF a]
  show "postedIds (process_post_repost e w post) = postedIds w"
    and "ledger_file (process_post_repost e w post) = ledger_file w"
    and "feed (process_post_repost e w post) = feed w"
    and "foldl (process_post_repost e) w (post # rest)
          = foldl (process_post_repost e)
              (w\<lparr>temp_files :=
                 fst (foldl (download_step e post) (temp_files w, []) (media_attachments post))\<rparr>)
              rest"
    by (simp_all add: u)
next
  fix posts before later err
  assume a: "fetch_posts e = Inr posts \<and> login_error e = None
        \<and> rev (filter (\<lambda>p. post_id p \<notin> set (postedIds w)) posts) = before @ post # later
        \<and> postToBlueSky_repost e
            (fst (foldl (download_step e post)
                    (temp_files (foldl (process_post_repost e) w before), [])
                    (media_attachments post)))
            (post_body post)
            (snd (foldl (download_step e post)
                    (temp_files (foldl (process_post_repost e) w before), [])
                    (media_attachments post)))
            = Inl err"
  with main_repost_skips_failed [of e posts w before post later err]
  show "\<exists>w'. main_repost e w = Inr w'
           \<and> w' = foldl (process_post_repost e)
                    ((foldl (process_post_repost e) w before)
                       \<lparr>temp_files :=
                          fst (foldl (download_step e post)
                                 (temp_files (foldl (process_post_repost e) w before), [])
                                 (media_attachments post))\<rparr>)
                    later
           \<and> feed w' = feed w @ concat (map (published_by_repost e) before)
                          @ concat (map (published_by_repost e) later)
           \<and> postedIds w' = postedIds w @ concat (map (marked_by_repost e) before)
                               @ concat (map (marked_by_repost e) later)"
    by simp
next
  fix posts
  assume a: "fetch_posts e = Inr posts \<and> login_error e = None"
  then show "\<exists>w'. main_buffers e w = Inr w'" by (simp add: main_buffers_run)
  from a show "\<exists>w'. main_repost e w = Inr w'" by (simp add: main_repost_run)
qed

theorem publish_failure_is_per_post_witness:
  "map post_id ref_timeline = [''3'', ''2'', ''1'']
   \<and> postToBlueSky_buffers ref_env_flaky \<lparr>rt_text = ''T2'', rt_facets = []\<rparr> [] None
     = Inl (Error ''rejected'')
   \<and> process_post_buffers ref_env_flaky (start [] [] Map.empty) (ref_post ''2'' ''T2'' [])
     = start [] [] Map.empty
   \<and> postToBlueSky_repost ref_env_flaky Map.empty (Some ''T2'') [] = Inl (Error ''rejected'')
   \<and> feed (process_post_repost ref_env_flaky (start [] [] Map.empty)
        (ref_post ''2'' ''T2'' [])) = []
   \<and> main_buffers ref_env_flaky (start [] [] Map.empty)
     = Inr \<lparr>postedIds = [''1'', ''3''], ledger_file = [''1'', ''3''],
          feed = [\<lparr>bp_text = Some ''T1'', bp_facets = Some [], bp_embed = None\<rparr>,
                  \<lparr>bp_text = Some ''T3'', bp_facets = Some [], bp_embed = None\<rparr>],
          temp_files = Map.empty\<rparr>
   \<and> main_repost ref_env_flaky (start [] [] Map.empty)
     = Inr \<lparr>postedIds = [''1'', ''3''], ledger_file = [''1'', ''3''],
          feed = [\<lparr>bp_text = Some ''T1'', bp_facets = None, bp_embed = None\<rparr>,
                  \<lparr>bp_text = Some ''T3'', bp_facets = None, bp_embed = None\<rparr>],
          temp_files = Map.empty\<rparr>"
proof -
  have ids: "map post_id ref_timeline = [''3'', ''2'', ''1'']"
    by (simp add: ref_timeline_def ref_post_def)
  from publish_failure_is_per_post [of ref_env_flaky "ref_post ''2'' ''T2'' []"
      "start [] [] Map.empty" "[]"]
    ids ref_flaky_post2 ref_flaky_candidates ref_flaky_before
  show ?thesis
    by (simp add: ref_flaky_buffers ref_flaky_repost ref_flaky_fields BLUESKY_MAX_CHARS_def
        start_fields)
qed

subsection \<open>The text guards\<close>

lemma text_guard_buffers:
  assumes "mastodonToRichText e (or_empty (post_body post)) = Inr None
     \<or> (\<exists>rt. mastodonToRichText e (or_empty (post_body post)) = Inr (Some rt)
           \<and> (rt_text rt = [] \<or> BLUESKY_MAX_CHARS < length (rt_text rt)))"
  shows "process_post_buffers e w post = w"
  using assms by (auto simp add: process_post_buffers_def)

lemma text_guard_rich:
  assumes "mastodonToRichText e (or_empty (post_body post)) = Inr None
     \<or> (\<exists>rt. mastodonToRichText e (or_empty (post_body post)) = Inr (Some rt)
           \<and> (rt_text rt = [] \<or> BLUESKY_MAX_CHARS < length (rt_text rt)))"
  shows "process_post_rich e w post = w"
  using assms by (auto simp add: process_post_rich_def)

lemma ref_long_rich_text:
  "mastodonToRichText ref_env (or_empty (post_body ref_long_post))
   = Inr (Some \<lparr>rt_text = replicate 301 CHR ''a'', rt_facets = []\<rparr>)"
  by (simp add: mastodonToRichText_def post_body_def js_or_def truthy_def or_empty_def
      ref_long_post_def ref_post_def ref_env_fields)

lemma ref_empty_rich_text:
  "mastodonToRichText ref_env (or_empty (post_body ref_empty_post)) = Inr None"
  by (simp add: mastodonToRichText_def post_body_def js_or_def truthy_def or_empty_def
      ref_empty_post_def ref_post_def)

text \<open>
  Claim C6, as stated, fails: a candidate of 301 characters and a candidate without
  text are not published, but their identifiers are not added to the ledger either,
  neither in memory nor in the file, in \<^verbatim>\<open>part_000\<close> and in the second script of
  \<^verbatim>\<open>part_001\<close>.
\<close>

theorem text_skip_marks_counterexample:
  "BLUESKY_MAX_CHARS < length (replicate 301 CHR ''a'')
   \<and> process_post_buffers ref_env (start [] [] Map.empty) ref_long_post
       = start [] [] Map.empty
   \<and> process_post_rich ref_env (start [] [] Map.empty) ref_long_post
       = start [] [] Map.empty
   \<and> process_post_buffers ref_env (start [] [] Map.empty) ref_empty_post
       = start [] [] Map.empty
   \<and> process_post_rich ref_env (start [] [] Map.empty) ref_empty_post
       = start [] [] Map.empty
   \<and> postedIds (start [] [] Map.empty) = []
   \<and> ledger_file (start [] [] Map.empty) = []"
  by (simp add: process_post_buffers_def process_post_rich_def ref_long_rich_text
      ref_empty_rich_text BLUESKY_MAX_CHARS_def start_fields)

lemma main_rich_run:
  "fetch_posts e = Inr posts \<Longrightarrow> login_error e = None \<Longrightarrow>
   main_rich e w = Inr (foldl (process_post_rich e) w (candidates (postedIds w) posts))"
  by (simp add: main_rich_def candidates_def Let_def)

lemma published_by_buffers_text_guard:
  assumes "mastodonToRichText e (or_empty (post_body post)) = Inr None
     \<or> (\<exists>rt. mastodonToRichText e (or_empty (post_body post)) = Inr (Some rt)
           \<and> (rt_text rt = [] \<or> BLUESKY_MAX_CHARS < length (rt_text rt)))"
  shows "published_by_buffers e post = []" and "marked_by_buffers e post = []"
  using text_guard_buffers [OF assms, of "start [] [] Map.empty"]
  by (simp_all add: published_by_buffers_def marked_by_buffers_def start_fields)

lemma main_skips_rejected_text:
  assumes a: "mastodonToRichText e (or_empty (post_body post)) = Inr None
     \<or> (\<exists>rt. mastodonToRichText e (or_empty (post_body post)) = Inr (Some rt)
           \<and> (rt_text rt = [] \<or> BLUESKY_MAX_CHARS < length (rt_text rt)))"
    and f: "fetch_posts e = Inr posts" and l: "login_error e = None"
    and c: "rev (filter (\<lambda>p. post_id p \<notin> set (postedIds w)) posts) = before @ post # later"
  shows "main_buffers e w
         = Inr (foldl (process_post_buffers e) (foldl (process_post_buffers e) w before) later)"
    and "main_rich e w
         = Inr (foldl (process_post_rich e) (foldl (process_post_rich e) w before) later)"
    and "feed (foldl (process_post_buffers e) (foldl (process_post_buffers e) w before) later)
         = feed w @ concat (map (published_by_buffers e) before)
             @ concat (map (published_by_buffers e) later)"
    and "postedIds (foldl (process_post_buffers e) (foldl (process_post_buffers e) w before) later)
         = postedIds w @ concat (map (marked_by_buffers e) before)
             @ concat (map (marked_by_buffers e) later)"
proof -
  from main_buffers_run [OF f l, of w] c text_guard_buffers [OF a]
  show "main_buffers e w
         = Inr (foldl (process_post_buffers e) (foldl (process_post_buffers e) w before) later)"
    by (simp add: candidates_def)
  from main_rich_run [OF f l, of w] c text_guard_rich [OF a]
  show "main_rich e w
         = Inr (foldl (process_post_rich e) (foldl (process_post_rich e) w before) later)"
    by (simp add: candidates_def)
  show "feed (foldl (process_post_buffers e) (foldl (process_post_buffers e) w before) later)
         = feed w @ concat (map (published_by_buffers e) before)
             @ concat (map (published_by_buffers e) later)"
    by (simp add: foldl_buffers_feed)
  show "postedIds (foldl (process_post_buffers e) (foldl (process_post_buffers e) w before) later)
         = postedIds w @ concat (map (marked_by_buffers e) before)
             @ concat (map (marked_by_buffers e) later)"
    by (simp add: foldl_buffers_ids)
qed

lemma ref_mixed_fields:
  "fetch_posts ref_env_mixed
     = Inr [ref_post ''3'' ''T3'' [], ref_long_post, ref_post ''1'' ''T1'' []]"
  "login_error ref_env_mixed = None"
  "clean_text ref_env_mixed = (\<lambda>html. Inr html)"
  "detect_facets ref_env_mixed = (\<lambda>text. Inr [])"
  "upload_error ref_env_mixed = (\<lambda>data encoding. None)"
  "post_error ref_env_mixed = (\<lambda>p. None)"
  "ledger_write_error ref_env_mixed = (\<lambda>ids. None)"
  by (simp_all add: ref_env_mixed_def ref_env_def)

lemma ref_mixed_long_text:
  "mastodonToRichText ref_env_mixed (or_empty (post_body ref_long_post))
   = Inr (Some \<lparr>rt_text = replicate 301 CHR ''a'', rt_facets = []\<rparr>)"
  by (simp add: mastodonToRichText_def post_body_def js_or_def truthy_def or_empty_def
      ref_long_post_def ref_post_def ref_mixed_fields)

lemma ref_mixed_candidates:
  "rev (filter (\<lambda>p. post_id p \<notin> set (postedIds (start [] [] Map.empty)))
          [ref_post ''3'' ''T3'' [], ref_long_post, ref_post ''1'' ''T1'' []])
   = [ref_post ''1'' ''T1'' []] @ ref_long_post # [ref_post ''3'' ''T3'' []]"
  by (simp add: start_fields)

lemma ref_mixed_short:
  "process_post_buffers ref_env_mixed w (ref_post ident ''T1'' [])
   = w\<lparr>postedIds := postedIds w @ [ident], ledger_file := postedIds w @ [ident],
       feed := feed w @ [\<lparr>bp_text = Some ''T1'', bp_facets = Some [], bp_embed = None\<rparr>]\<rparr>"
  "process_post_buffers ref_env_mixed w (ref_post ident ''T3'' [])
   = w\<lparr>postedIds := postedIds w @ [ident], ledger_file := postedIds w @ [ident],
       feed := feed w @ [\<lparr>bp_text = Some ''T3'', bp_facets = Some [], bp_embed = None\<rparr>]\<rparr>"
  "process_post_rich ref_env_mixed w (ref_post ident ''T1'' [])
   = w\<lparr>postedIds := postedIds w @ [ident], ledger_file := postedIds w @ [ident],
       feed := feed w @ [\<lparr>bp_text = Some ''T1'', bp_facets = Some [], bp_embed = None\<rparr>],
       temp_files := temp_files w\<rparr>"
  "process_post_rich ref_env_mixed w (ref_post ident ''T3'' [])
   = w\<lparr>postedIds := postedIds w @ [ident], ledger_file := postedIds w @ [ident],
       feed := feed w @ [\<lparr>bp_text = Some ''T3'', bp_facets = Some [], bp_embed = None\<rparr>],
       temp_files := temp_files w\<rparr>"
  by (simp_all add: process_post_buffers_def process_post_rich_def mastodonToRichText_def
      post_body_def js_or_def truthy_def or_empty_def ref_post_def ref_mixed_fields
      BLUESKY_MAX_CHARS_def collect_media_def postToBlueSky_buffers_def
      postToBlueSky_rich_def agent_post_def mark_posted_def savePostedIds_def Let_def)

lemma ref_mixed_runs:
  "foldl (process_post_buffers ref_env_mixed)
     (foldl (process_post_buffers ref_env_mixed) (start [] [] Map.empty)
        [ref_post ''1'' ''T1'' []])
     [ref_post ''3'' ''T3'' []]
   = \<lparr>postedIds = [''1'', ''3''], ledger_file = [''1'', ''3''],
      feed = [\<lparr>bp_text = Some ''T1'', bp_facets = Some [], bp_embed = None\<rparr>,
              \<lparr>bp_text = Some ''T3'', bp_facets = Some [], bp_embed = None\<rparr>],
      temp_files = Map.empty\<rparr>"
  "foldl (process_post_rich ref_env_mixed)
     (foldl (process_post_rich ref_env_mixed) (start [] [] Map.empty)
        [ref_post ''1'' ''T1'' []])
     [ref_post ''3'' ''T3'' []]
   = \<lparr>postedIds = [''1'', ''3''], ledger_file = [''1'', ''3''],
      feed = [\<lparr>bp_text = Some ''T1'', bp_facets = Some [], bp_embed = None\<rparr>,
              \<lparr>bp_text = Some ''T3'', bp_facets = Some [], bp_embed = None\<rparr>],
      temp_files = Map.empty\<rparr>"
  by (simp_all add: ref_mixed_short start_def)

text \<open>
  Claim C6, amended. For every candidate whose transformed text is absent, empty or
  longer than \<open>BLUESKY_MAX_CHARS\<close> (300), the loop body of \<^verbatim>\<open>part_000\<close> and of the second
  script of \<^verbatim>\<open>part_001\<close> changes nothing: the post is not published, whole or
  truncated, its identifier is not added to \<open>postedIds\<close> or to the ledger file, and the
  loop continues with the next candidate. For the run: when the fetch and the login
  succeed, the run ends in the state that the loop reaches by processing the candidates
  before that one and then the candidates after it; in \<^verbatim>\<open>part_000\<close> the feed and
  \<open>postedIds\<close> grow by what those other candidates publish and mark.
\<close>

theorem text_guard_skips_without_marking:
  "mastodonToRichText e (or_empty (post_body post)) = Inr None
   \<or> (\<exists>rt. mastodonToRichText e (or_empty (post_body post)) = Inr (Some rt)
         \<and> (rt_text rt = [] \<or> BLUESKY_MAX_CHARS < length (rt_text rt))) \<longrightarrow>
   process_post_buffers e w post = w
   \<and> process_post_rich e w post = w
   \<and> foldl (process_post_buffers e) w (post # rest) = foldl (process_post_buffers e) w rest
   \<and> foldl (process_post_rich e) w (post # rest) = foldl (process_post_rich e) w rest
   \<and> (\<forall>posts before later.
         fetch_posts e = Inr posts \<and> login_error e = None
         \<and> rev (filter (\<lambda>p. post_id p \<notin> set (postedIds w)) posts) = before @ post # later
         \<longrightarrow>
         (\<exists>w'. main_buffers e w = Inr w'
            \<and> w' = foldl (process_post_buffers e)
                     (foldl (process_post_buffers e) w before) later
            \<and> feed w' = feed w @ concat (map (published_by_buffers e) before)
                           @ concat (map (published_by_buffers e) later)
            \<and> postedIds w' = postedIds w @ concat (map (marked_by_buffers e) before)
                                @ concat (map (marked_by_buffers e) later))
         \<and> main_rich e w
             = Inr (foldl (process_post_rich e) (foldl (process_post_rich e) w before) later))"
proof (intro impI conjI allI)
  assume a: "mastodonToRichText e (or_empty (post_body post)) = Inr None
   \<or> (\<exists>rt. mastodonToRichText e (or_empty (post_body post)) = Inr (Some rt)
         \<and> (rt_text rt = [] \<or> BLUESKY_MAX_CHARS < length (rt_text rt)))"
  from text_guard_buffers [OF a] text_guard_rich [OF a]
  show "process_post_buffers e w post = w"
    and "process_post_rich e w post = w"
    and "foldl (process_post_buffers e) w (post # rest) = foldl (process_post_buffers e) w rest"
    and "foldl (process_post_rich e) w (post # rest) = foldl (process_post_rich e) w rest"
    by simp_all
  fix posts before later
  assume b: "fetch_posts e = Inr posts \<and> login_error e = None
         \<and> rev (filter (\<lambda>p. post_id p \<notin> set (postedIds w)) posts) = before @ post # later"
  from b main_skips_rejected_text [OF a, of posts w before later]
  show "\<exists>w'. main_buffers e w = Inr w'
            \<and> w' = foldl (process_post_buffers e)
                     (foldl (process_post_buffers e) w before) later
            \<and> feed w' = feed w @ concat (map (published_by_buffers e) before)
                           @ concat (map (published_by_buffers e) later)
            \<and> postedIds w' = postedIds w @ concat (map (marked_by_buffers e) before)
                                @ concat (map (marked_by_buffers e) later)"
    and "main_rich e w
             = Inr (foldl (process_post_rich e) (foldl (process_post_rich e) w before) later)"
    by simp_all
qed

theorem text_guard_skips_without_marking_witness:
  "mastodonToRichText ref_env (or_empty (post_body ref_long_post))
     = Inr (Some \<lparr>rt_text = replicate 301 CHR ''a'', rt_facets = []\<rparr>)
   \<and> BLUESKY_MAX_CHARS < length (replicate 301 CHR ''a'')
   \<and> process_post_buffers ref_env (start [] [] Map.empty) ref_long_post
       = start [] [] Map.empty
   \<and> process_post_rich ref_env (start [] [] Map.empty) ref_long_post
       = start [] [] Map.empty
   \<and> mastodonToRichText ref_env (or_empty (post_body ref_empty_post)) = Inr None
   \<and> process_post_buffers ref_env (start [] [] Map.empty) ref_empty_post
       = start [] [] Map.empty
   \<and> process_post_rich ref_env (start [] [] Map.empty) ref_empty_post
       = start [] [] Map.empty
   \<and> main_buffers ref_env_mixed (start [] [] Map.empty)
       = Inr \<lparr>postedIds = [''1'', ''3''], ledger_file = [''1'', ''3''],
            feed = [\<lparr>bp_text = Some ''T1'', bp_facets = Some [], bp_embed = None\<rparr>,
                    \<lparr>bp_text = Some ''T3'', bp_facets = Some [], bp_embed = None\<rparr>],
            temp_files = Map.empty\<rparr>
   \<and> main_rich ref_env_mixed (start [] [] Map.empty)
       = Inr \<lparr>postedIds = [''1'', ''3''], ledger_file = [''1'', ''3''],
            feed = [\<lparr>bp_text = Some ''T1'', bp_facets = Some [], bp_embed = None\<rparr>,
                    \<lparr>bp_text = Some ''T3'', bp_facets = Some [], bp_embed = None\<rparr>],
            temp_files = Map.empty\<rparr>"
proof -
  have l: "BLUESKY_MAX_CHARS < length (replicate 301 CHR ''a'')"
    by (simp add: BLUESKY_MAX_CHARS_def)
  from text_guard_skips_without_marking [of ref_env ref_long_post "start [] [] Map.empty" "[]"]
    text_guard_skips_without_marking [of ref_env ref_empty_post "start [] [] Map.empty" "[]"]
    ref_long_rich_text ref_empty_rich_text l
  have first: "process_post_buffers ref_env (start [] [] Map.empty) ref_long_post
       = start [] [] Map.empty
   \<and> process_post_rich ref_env (start [] [] Map.empty) ref_long_post
       = start [] [] Map.empty
   \<and> process_post_buffers ref_env (start [] [] Map.empty) ref_empty_post
       = start [] [] Map.empty
   \<and> process_post_rich ref_env (start [] [] Map.empty) ref_empty_post
       = start [] [] Map.empty"
    by simp
  have h: "mastodonToRichText ref_env_mixed (or_empty (post_body ref_long_post)) = Inr None
     \<or> (\<exists>rt. mastodonToRichText ref_env_mixed (or_empty (post_body ref_long_post))
                = Inr (Some rt)
           \<and> (rt_text rt = [] \<or> BLUESKY_MAX_CHARS < length (rt_text rt)))"
    using ref_mixed_long_text l by simp
  have c: "fetch_posts ref_env_mixed
        = Inr [ref_post ''3'' ''T3'' [], ref_long_post, ref_post ''1'' ''T1'' []]
     \<and> login_error ref_env_mixed = None
     \<and> rev (filter (\<lambda>p. post_id p \<notin> set (postedIds (start [] [] Map.empty)))
               [ref_post ''3'' ''T3'' [], ref_long_post, ref_post ''1'' ''T1'' []])
         = [ref_post ''1'' ''T1'' []] @ ref_long_post # [ref_post ''3'' ''T3'' []]"
    using ref_mixed_fields(1,2) ref_mixed_candidates by (intro conjI)
  note run = text_guard_skips_without_marking
      [of ref_env_mixed ref_long_post "start [] [] Map.empty" "[]", THEN mp, OF h,
        THEN conjunct2, THEN conjunct2, THEN conjunct2, THEN conjunct2, rule_format, OF c]
  from run have "main_buffers ref_env_mixed (start [] [] Map.empty)
       = Inr (foldl (process_post_buffers ref_env_mixed)
           (foldl (process_post_buffers ref_env_mixed) (start [] [] Map.empty)
              [ref_post ''1'' ''T1'' []])
           [ref_post ''3'' ''T3'' []])"
    and "main_rich ref_env_mixed (start [] [] Map.empty)
       = Inr (foldl (process_post_rich ref_env_mixed)
           (foldl (process_post_rich ref_env_mixed) (start [] [] Map.empty)
              [ref_post ''1'' ''T1'' []])
           [ref_post ''3'' ''T3'' []])"
    by (elim conjE exE, simp)+
  with first ref_long_rich_text ref_empty_rich_text l show ?thesis
    by (simp only: ref_mixed_runs simp_thms)
qed

subsection \<open>The first draft publishes every post\<close>

lemma download_detail:
  "\<exists>g l. foldl (download_step e post) (Map.empty, []) ms = (g, l)
     \<and> set l \<subseteq> dom g
     \<and> length l = length (filter (\<lambda>m. \<not> isl (fetch_media e (media_url m))) ms)
     \<and> (\<forall>p \<in> set l. \<exists>m \<in> set ms. \<exists>d. g p = Some d \<and> fetch_media e (media_url m) = Inr d)"
proof (induction ms rule: rev_induct)
  case Nil
  show ?case by simp
next
  case (snoc m ms)
  then obtain g l where gl: "foldl (download_step e post) (Map.empty, []) ms = (g, l)"
    and dom: "set l \<subseteq> dom g"
    and len: "length l = length (filter (\<lambda>m. \<not> isl (fetch_media e (media_url m))) ms)"
    and src: "\<forall>p \<in> set l. \<exists>m \<in> set ms. \<exists>d. g p = Some d \<and> fetch_media e (media_url m) = Inr d"
    by blast
  let ?x = "temp_path e (media_filename e post m)"
  show ?case
  proof (cases "fetch_media e (media_url m)")
    case (Inl err)
    then have "foldl (download_step e post) (Map.empty, []) (ms @ [m]) = (g, l)"
      by (simp add: gl download_step_unfold)
    moreover from Inl len
    have "length l = length (filter (\<lambda>m. \<not> isl (fetch_media e (media_url m))) (ms @ [m]))"
      by simp
    moreover from src
    have "\<forall>p \<in> set l. \<exists>m' \<in> set (ms @ [m]). \<exists>d. g p = Some d
            \<and> fetch_media e (media_url m') = Inr d"
      by auto
    ultimately show ?thesis using dom by blast
  next
    case (Inr body)
    then have "foldl (download_step e post) (Map.empty, []) (ms @ [m])
               = (g(?x \<mapsto> body), l @ [?x])"
      by (simp add: gl download_step_unfold)
    moreover from dom have "set (l @ [?x]) \<subseteq> dom (g(?x \<mapsto> body))"
      by auto
    moreover from Inr len
    have "length (l @ [?x])
          = length (filter (\<lambda>m. \<not> isl (fetch_media e (media_url m))) (ms @ [m]))"
      by simp
    moreover have "\<forall>p \<in> set (l @ [?x]). \<exists>m' \<in> set (ms @ [m]). \<exists>d.
            (g(?x \<mapsto> body)) p = Some d \<and> fetch_media e (media_url m') = Inr d"
    proof
      fix p
      assume p: "p \<in> set (l @ [?x])"
      show "\<exists>m' \<in> set (ms @ [m]). \<exists>d.
            (g(?x \<mapsto> body)) p = Some d \<and> fetch_media e (media_url m') = Inr d"
      proof (cases "p = ?x")
        case True
        with Inr show ?thesis by auto
      next
        case False
        with p have "p \<in> set l" by simp
        with src obtain m' d where "m' \<in> set ms" "g p = Some d"
          "fetch_media e (media_url m') = Inr d"
          by blast
        with False show ?thesis by auto
      qed
    qed
    ultimately show ?thesis by blast
  qed
qed

lemma upload_repost_accepting:
  assumes "\<forall>data enc. upload_error e data enc = None"
  shows "set l \<subseteq> dom g \<Longrightarrow>
    \<exists>entries. upload_repost e g l acc = Inr (acc @ entries)
      \<and> length entries = length l
      \<and> (\<forall>en \<in> set entries. \<exists>p \<in> set l. g p = Some (blob_data (entry_image en)))"
proof (induction l arbitrary: acc)
  case Nil
  show ?case by simp
next
  case (Cons p l)
  then obtain d where d: "g p = Some d" by auto
  from Cons.prems have "set l \<subseteq> dom g" by simp
  from Cons.IH [OF this, of "acc @ [image_of \<lparr>blob_data = d, blob_mime = mime_of_repost p\<rparr>]"]
  obtain entries where
    u: "upload_repost e g l (acc @ [image_of \<lparr>blob_data = d, blob_mime = mime_of_repost p\<rparr>])
        = Inr ((acc @ [image_of \<lparr>blob_data = d, blob_mime = mime_of_repost p\<rparr>]) @ entries)"
    and len: "length entries = length l"
    and src: "\<forall>en \<in> set entries. \<exists>p \<in> set l. g p = Some (blob_data (entry_image en))"
    by blast
  let ?es = "image_of \<lparr>blob_data = d, blob_mime = mime_of_repost p\<rparr> # entries"
  from u d assms have "upload_repost e g (p # l) acc = Inr (acc @ ?es)"
    by (simp add: uploadBlob_def)
  moreover from len have "length ?es = length (p # l)" by simp
  moreover from src d
  have "\<forall>en \<in> set ?es. \<exists>q \<in> set (p # l). g q = Some (blob_data (entry_image en))"
    by (auto simp add: image_of_def)
  ultimately show ?case by blast
qed

lemma process_post_repost_accepting:
  assumes up: "\<forall>data enc. upload_error e data enc = None"
    and po: "\<forall>p. post_error e p = None"
  shows "\<exists>r. published_by_repost e post = [r]
     \<and> bp_text r = post_body post
     \<and> length (embed_images (bp_embed r))
         = length (filter (\<lambda>m. \<not> isl (fetch_media e (media_url m))) (media_attachments post))
     \<and> (\<forall>en \<in> set (embed_images (bp_embed r)). \<exists>m \<in> set (media_attachments post).
           fetch_media e (media_url m) = Inr (blob_data (entry_image en)))"
proof -
  from download_detail [of e post "media_attachments post"]
  obtain g l where
    gl: "foldl (download_step e post) (Map.empty, []) (media_attachments post) = (g, l)"
    and dom: "set l \<subseteq> dom g"
    and len: "length l = length (filter (\<lambda>m. \<not> isl (fetch_media e (media_url m)))
                                  (media_attachments post))"
    and src: "\<forall>p \<in> set l. \<exists>m \<in> set (media_attachments post). \<exists>d.
                g p = Some d \<and> fetch_media e (media_url m) = Inr d"
    by blast
  from upload_repost_accepting [OF up dom, of "[]"]
  obtain entries where u: "upload_repost e g l [] = Inr entries"
    and elen: "length entries = length l"
    and esrc: "\<forall>en \<in> set entries. \<exists>p \<in> set l. g p = Some (blob_data (entry_image en))"
    by auto
  let ?r = "\<lparr>bp_text = post_body post, bp_facets = None,
             bp_embed = (if length l > 0 then Some (EmbedImages entries) else None)\<rparr>"
  from u po have pub: "postToBlueSky_repost e g (post_body post) l = Inr ?r"
    by (simp add: postToBlueSky_repost_def agent_post_def)
  then have "published_by_repost e post = [?r]"
    by (simp add: published_by_repost_def process_post_repost_def Let_def gl start_fields
        savePostedIds_def split: option.splits)
  moreover have "length (embed_images (bp_embed ?r))
         = length (filter (\<lambda>m. \<not> isl (fetch_media e (media_url m))) (media_attachments post))"
    using len elen by (simp add: embed_images_def)
  moreover have "\<forall>en \<in> set (embed_images (bp_embed ?r)). \<exists>m \<in> set (media_attachments post).
           fetch_media e (media_url m) = Inr (blob_data (entry_image en))"
  proof
    fix en
    assume "en \<in> set (embed_images (bp_embed ?r))"
    then have "en \<in> set entries" by (simp add: embed_images_def split: if_splits)
    with esrc obtain p where "p \<in> set l" "g p = Some (blob_data (entry_image en))"
      by blast
    with src show "\<exists>m \<in> set (media_attachments post).
           fetch_media e (media_url m) = Inr (blob_data (entry_image en))"
      by fastforce
  qed
  ultimately show ?thesis by (intro exI [of _ ?r]) simp
qed

lemma marked_by_repost_published:
  "marked_by_repost e post = map (\<lambda>r. post_id post) (published_by_repost e post)"
  by (simp add: marked_by_repost_def published_by_repost_def process_post_repost_def Let_def
      start_fields savePostedIds_def split: sum.splits option.splits)

lemma map_text_published_by_repost:
  assumes "\<forall>post. \<exists>r. published_by_repost e post = [r] \<and> bp_text r = post_body post"
  shows "map bp_text (concat (map (published_by_repost e) ps)) = map post_body ps"
proof (induction ps)
  case Nil
  show ?case by simp
next
  case (Cons p ps)
  from assms obtain r where "published_by_repost e p = [r]" "bp_text r = post_body p"
    by blast
  with Cons show ?case by simp
qed

lemma post_body_absent:
  "props post ''content'' = None \<Longrightarrow> props post ''spoiler_text'' = None \<Longrightarrow>
   props post ''text'' = None \<Longrightarrow> post_body post = None"
  by (simp add: post_body_def js_or_def truthy_def)

lemma line120_text_absent:
  "\<forall>k. props post k = None \<Longrightarrow> line120_text post = post_id post"
  by (simp add: line120_text_def js_or_def truthy_def or_empty_def)

lemma ref_bare_run:
  "feed (process_post_repost ref_env (start [] [] Map.empty) ref_bare_post)
     = [\<lparr>bp_text = None, bp_facets = None,
         bp_embed = Some (EmbedImages
           [image_of \<lparr>blob_data = replicate 5000000 137, blob_mime = ''image/jpeg''\<rparr>])\<rparr>]"
  "postedIds (process_post_repost ref_env (start [] [] Map.empty) ref_bare_post) = [''7'']"
  by (simp_all add: process_post_repost_def Let_def ref_bare_post_def start_fields
      download_step_unfold media_filename_def ref_env_fields ref_fetch_media_def
      ref_extname_def post_body_def js_or_def truthy_def postToBlueSky_repost_def
      mime_of_repost_def ends_with_def uploadBlob_def agent_post_def savePostedIds_def)

text \<open>
  Claim C10. In \<^verbatim>\<open>repost.js\<close>, whenever the destination accepts the uploads and the
  post, the loop body publishes every candidate, whatever its text and the size of its
  media: the published text is \<open>post.content || post.spoiler_text || post.text\<close>, which
  is \<open>undefined\<close> when the three properties are absent, although the constant of line 120
  is then the identifier of the post; the embed has one entry for every attachment whose
  download succeeded, holding downloaded bytes unchanged; and the identifier is appended
  to \<open>postedIds\<close>. A run publishes all its candidates, with these texts.
\<close>

theorem repost_publishes_unconditionally:
  "((\<forall>data enc. upload_error e data enc = None) \<and> (\<forall>p. post_error e p = None) \<longrightarrow>
      (\<exists>r. feed (process_post_repost e w post) = feed w @ [r]
         \<and> bp_text r = post_body post
         \<and> length (embed_images (bp_embed r))
             = length (filter (\<lambda>m. \<not> isl (fetch_media e (media_url m)))
                         (media_attachments post))
         \<and> (\<forall>en \<in> set (embed_images (bp_embed r)). \<exists>m \<in> set (media_attachments post).
               fetch_media e (media_url m) = Inr (blob_data (entry_image en))))
      \<and> postedIds (process_post_repost e w post) = postedIds w @ [post_id post]
      \<and> (\<forall>posts. fetch_posts e = Inr posts \<and> login_error e = None \<longrightarrow>
           (\<exists>w'. main_repost e w = Inr w'
              \<and> map bp_text (drop (length (feed w)) (feed w'))
                  = map post_body
                      (rev (filter (\<lambda>post. post_id post \<notin> set (postedIds w)) posts)))))
   \<and> (props post ''content'' = None \<and> props post ''spoiler_text'' = None
        \<and> props post ''text'' = None \<longrightarrow> post_body post = None)
   \<and> ((\<forall>k. props post k = None) \<longrightarrow> line120_text post = post_id post)"
proof (intro conjI impI)
  assume a: "(\<forall>data enc. upload_error e data enc = None) \<and> (\<forall>p. post_error e p = None)"
  then have all: "\<And>post. \<exists>r. published_by_repost e post = [r]
     \<and> bp_text r = post_body post
     \<and> length (embed_images (bp_embed r))
         = length (filter (\<lambda>m. \<not> isl (fetch_media e (media_url m))) (media_attachments post))
     \<and> (\<forall>en \<in> set (embed_images (bp_embed r)). \<exists>m \<in> set (media_attachments post).
           fetch_media e (media_url m) = Inr (blob_data (entry_image en)))"
    using process_post_repost_accepting [of e] by blast
  from all [of post]
  show "\<exists>r. feed (process_post_repost e w post) = feed w @ [r]
         \<and> bp_text r = post_body post
         \<and> length (embed_images (bp_embed r))
             = length (filter (\<lambda>m. \<not> isl (fetch_media e (media_url m)))
                         (media_attachments post))
         \<and> (\<forall>en \<in> set (embed_images (bp_embed r)). \<exists>m \<in> set (media_attachments post).
               fetch_media e (media_url m) = Inr (blob_data (entry_image en)))"
    by (simp add: process_post_repost_feed_append)
  from all [of post]
  show "postedIds (process_post_repost e w post) = postedIds w @ [post_id post]"
    by (auto simp add: process_post_repost_ids_append marked_by_repost_published)
  from all have texts: "\<forall>post. \<exists>r. published_by_repost e post = [r] \<and> bp_text r = post_body post"
    by blast
  show "\<forall>posts. fetch_posts e = Inr posts \<and> login_error e = None \<longrightarrow>
           (\<exists>w'. main_repost e w = Inr w'
              \<and> map bp_text (drop (length (feed w)) (feed w'))
                  = map post_body
                      (rev (filter (\<lambda>post. post_id post \<notin> set (postedIds w)) posts)))"
    by (simp add: main_repost_run foldl_repost_feed candidates_def
        map_text_published_by_repost [OF texts])
next
  assume "props post ''content'' = None \<and> props post ''spoiler_text'' = None
        \<and> props post ''text'' = None"
  then show "post_body post = None" by (simp add: post_body_absent)
next
  assume "\<forall>k. props post k = None"
  then show "line120_text post = post_id post" by (rule line120_text_absent)
qed

theorem repost_publishes_unconditionally_witness:
  "feed (process_post_repost ref_env (start [] [] Map.empty) ref_bare_post)
     = [\<lparr>bp_text = None, bp_facets = None,
         bp_embed = Some (EmbedImages
           [image_of \<lparr>blob_data = replicate 5000000 137, blob_mime = ''image/jpeg''\<rparr>])\<rparr>]
   \<and> postedIds (process_post_repost ref_env (start [] [] Map.empty) ref_bare_post) = [''7'']
   \<and> BLUESKY_IMAGE_MAX_SIZE < length (replicate 5000000 (137 :: 8 word))
   \<and> post_body ref_bare_post = None
   \<and> line120_text ref_bare_post = ''7''"
proof -
  have u: "\<forall>data enc. upload_error ref_env data enc = None"
    and p: "\<forall>p. post_error ref_env p = None"
    by (simp_all add: ref_env_fields)
  have n: "\<forall>k. props ref_bare_post k = None" "post_id ref_bare_post = ''7''"
    by (simp_all add: ref_bare_post_def)
  have s: "BLUESKY_IMAGE_MAX_SIZE < length (replicate 5000000 (137 :: 8 word))"
    by (simp add: BLUESKY_IMAGE_MAX_SIZE_def)
  from repost_publishes_unconditionally [of ref_env "start [] [] Map.empty" ref_bare_post]
    u p n s ref_bare_run
  show ?thesis by simp
qed


section \<open>Running twice\<close>

lemma marked_by_buffers_cases:
  "marked_by_buffers e post = [] \<or> marked_by_buffers e post = [post_id post]"
  by (simp add: marked_by_buffers_def process_post_buffers_def mark_posted_def
      savePostedIds_def start_fields split: sum.splits option.splits)















end
